theory Spec2Isabelle
  imports Main
begin

section \<open>Python values, exceptions and truthiness\<close>

text \<open>
  An exception is its class name and its message. The model follows instances of
  \<^verbatim>\<open>Exception\<close>, the class that the handler in \<^verbatim>\<open>DockerContainer.start\<close> catches.
  Python \<^verbatim>\<open>str\<close> and \<^verbatim>\<open>bytes\<close> are both \<^typ>\<open>string\<close>: a text is held in its
  UTF-8 encoding.
\<close>

datatype exn = Exn (exn_type: string) (exn_msg: string)

type_synonym bytes = string

text \<open>The documents the engine returns on inspection: nested dictionaries with string leaves.\<close>

datatype pyval = Str string | Dict "(string \<times> pyval) list"

text \<open>\<^verbatim>\<open>bool(v)\<close> of an \<^verbatim>\<open>Optional[str]\<close>: \<^verbatim>\<open>None\<close> and the empty string are false.\<close>

definition truthy :: "string option \<Rightarrow> bool" where
  "truthy v = (case v of None \<Rightarrow> False | Some s \<Rightarrow> s \<noteq> [])"

text \<open>\<^verbatim>\<open>a or b\<close> where \<^verbatim>\<open>a\<close> is an \<^verbatim>\<open>Optional[str]\<close> and \<^verbatim>\<open>b\<close> a \<^verbatim>\<open>str\<close>.\<close>

definition or_else :: "string option \<Rightarrow> string \<Rightarrow> string" where
  "or_else a b = (case a of None \<Rightarrow> b | Some s \<Rightarrow> if s \<noteq> [] then s else b)"

text \<open>\<^verbatim>\<open>d[k]\<close>: a missing key raises \<^verbatim>\<open>KeyError\<close>, a string subscripted by a key raises
  \<^verbatim>\<open>TypeError\<close>.\<close>

fun getitem :: "pyval \<Rightarrow> string \<Rightarrow> exn + pyval" where
  "getitem (Dict kvs) k =
     (case map_of kvs k of None \<Rightarrow> Inl (Exn ''KeyError'' k) | Some v \<Rightarrow> Inr v)"
| "getitem (Str s) k = Inl (Exn ''TypeError'' ''string indices must be integers'')"

text \<open>Sequencing of two steps of which the first may raise.\<close>

definition on_ok :: "exn + 'a \<Rightarrow> ('a \<Rightarrow> exn + 'b) \<Rightarrow> exn + 'b" where
  "on_ok r f = (case r of Inl e \<Rightarrow> Inl e | Inr v \<Rightarrow> f v)"

text \<open>\<^verbatim>\<open>s.split("\n")\<close>: the pieces between the separators; the empty text gives one empty piece.\<close>

fun split_on :: "char \<Rightarrow> string \<Rightarrow> string list" where
  "split_on c [] = [[]]"
| "split_on c (x # xs) =
     (if x = c then [] # split_on c xs
      else (case split_on c xs of [] \<Rightarrow> [[x]] | y # ys \<Rightarrow> (x # y) # ys))"

text \<open>
  \<^verbatim>\<open>bytes.decode()\<close> is the strict UTF-8 codec: it raises \<^verbatim>\<open>UnicodeDecodeError\<close> on a byte
  sequence that is not well-formed UTF-8 (a stray continuation byte, a truncated or overlong
  sequence, a surrogate, a code point above U+10FFFF).
\<close>

definition cont :: "nat \<Rightarrow> bool" where
  "cont b = (128 \<le> b \<and> b \<le> 191)"

fun utf8_ok :: "nat list \<Rightarrow> bool" where
  "utf8_ok [] = True"
| "utf8_ok (b # r) =
     (if b < 128 then utf8_ok r
      else if 194 \<le> b \<and> b \<le> 223 then
        (case r of b1 # r1 \<Rightarrow> cont b1 \<and> utf8_ok r1 | _ \<Rightarrow> False)
      else if 224 \<le> b \<and> b \<le> 239 then
        (case r of b1 # b2 # r2 \<Rightarrow>
           (if b = 224 then 160 \<le> b1 \<and> b1 \<le> 191
            else if b = 237 then 128 \<le> b1 \<and> b1 \<le> 159
            else cont b1) \<and> cont b2 \<and> utf8_ok r2
         | _ \<Rightarrow> False)
      else if 240 \<le> b \<and> b \<le> 244 then
        (case r of b1 # b2 # b3 # r3 \<Rightarrow>
           (if b = 240 then 144 \<le> b1 \<and> b1 \<le> 191
            else if b = 244 then 128 \<le> b1 \<and> b1 \<le> 143
            else cont b1) \<and> cont b2 \<and> cont b3 \<and> utf8_ok r3
         | _ \<Rightarrow> False)
      else False)"

definition decode :: "bytes \<Rightarrow> exn + string" where
  "decode bs =
     (if utf8_ok (map of_char bs) then Inr bs
      else Inl (Exn ''UnicodeDecodeError'' ''utf-8 codec cannot decode bytes''))"

section \<open>The container engine and the other collaborators\<close>

text \<open>
  The engine handle of a started container (\<^verbatim>\<open>docker.models.containers.Container\<close>).
  Such an object is always true in a boolean context.
\<close>

record container =
  container_id :: string
  short_id :: string

text \<open>The keyword arguments of \<^verbatim>\<open>DockerClient.run\<close> as \<^verbatim>\<open>_start\<close> passes them.\<close>

record run_args =
  arg_image :: string
  arg_command :: string
  arg_detach :: bool
  arg_environment :: "(string \<times> string) list"
  arg_ports :: "(nat \<times> nat option) list"
  arg_name :: "string option"
  arg_volumes :: "(string \<times> string) list"
  arg_kwargs :: "(string \<times> pyval) list"

text \<open>An image handle (\<^verbatim>\<open>docker.models.images.Image\<close>) and a finished subprocess.\<close>

record docker_image =
  image_id :: string

record completed_process =
  returncode :: int
  stdout :: bytes
  stderr :: bytes

text \<open>
  Everything the code does to the outside is an event: a line given to the logger or a call
  to a collaborator, with its arguments. The list of events so far is the history.
\<close>

datatype event =
    LoggerInfo string
  | ClientRun run_args
  | ContainerLogs container bool
  | ContainerRestart container
  | SuperStop "container option" bool bool
  | SubprocessRun "string list"
  | ImagesGet string
  | ImagesBuild "string option" string "string option" bool
  | ImagesRemove string

text \<open>
  The fields of a \<^verbatim>\<open>DockerContainer\<close> that the code reads or writes. A leading underscore
  of the source is written \<open>u_\<close>.
\<close>

record manager =
  network :: string
  image :: string
  u_command :: "string option"
  env :: "(string \<times> string) list"
  ports :: "(nat \<times> nat option) list"
  u_name :: "string option"
  volumes :: "(string \<times> string) list"
  u_kwargs :: "(string \<times> pyval) list"
  u_container :: "container option"

text \<open>
  The collaborators are parameters of the model. None of them is code of the repository:
  the engine client and the base class come from the testcontainers and docker libraries,
  \<^verbatim>\<open>subprocess.run\<close> and \<^verbatim>\<open>os.getenv\<close> from the standard library, and
  \<^verbatim>\<open>log_message_on_container_start\<close> is the abstract method a subclass supplies. Each one that
  answers from the engine's state takes the history, so its answer may depend on every call made before;
  each may raise, except the two plain reads \<^verbatim>\<open>DockerClient.host\<close> and \<^verbatim>\<open>inside_container\<close>.
\<close>

record world =
  environ :: "string \<rightharpoonup> string"
  inside_container :: bool
  client_host :: "event list \<Rightarrow> string option"
  client_get_container :: "event list \<Rightarrow> string \<Rightarrow> exn + pyval"
  client_run :: "event list \<Rightarrow> run_args \<Rightarrow> exn + container"
  container_logs :: "event list \<Rightarrow> container \<Rightarrow> bool \<Rightarrow> exn + bytes"
  container_restart :: "event list \<Rightarrow> container \<Rightarrow> exn + unit"
  super_stop :: "event list \<Rightarrow> container option \<Rightarrow> bool \<Rightarrow> bool \<Rightarrow> exn + unit"
  log_message_on_container_start :: "event list \<Rightarrow> manager \<Rightarrow> exn + string"
  subprocess_run :: "event list \<Rightarrow> string list \<Rightarrow> exn + completed_process"
  images_get :: "event list \<Rightarrow> string \<Rightarrow> exn + docker_image"
  images_build ::
    "event list \<Rightarrow> string option \<Rightarrow> string \<Rightarrow> string option \<Rightarrow> bool \<Rightarrow> exn + docker_image"
  images_remove :: "event list \<Rightarrow> string \<Rightarrow> exn + unit"

definition getenv :: "world \<Rightarrow> string \<Rightarrow> string option" where
  "getenv W k = environ W k"

section \<open>DockerContainer\<close>

definition get_wrapped_container :: "manager \<Rightarrow> container option" where
  "get_wrapped_container self = u_container self"

text \<open>
  \<^verbatim>\<open>self.get_wrapped_container().id\<close> raises \<^verbatim>\<open>AttributeError\<close> when there is no handle.
\<close>

definition wrapped_container_id :: "manager \<Rightarrow> exn + string" where
  "wrapped_container_id self =
     (case get_wrapped_container self of
        None \<Rightarrow> Inl (Exn ''AttributeError'' ''NoneType object has no attribute id'')
      | Some c \<Rightarrow> Inr (container_id c))"

definition get_container_internal_ip :: "world \<Rightarrow> manager \<Rightarrow> event list \<Rightarrow> exn + pyval" where
  "get_container_internal_ip W self h =
     on_ok (wrapped_container_id self) (\<lambda>cid.
     on_ok (client_get_container W h cid) (\<lambda>container.
     on_ok (getitem container ''NetworkSettings'') (\<lambda>settings.
     on_ok (getitem settings ''Networks'') (\<lambda>networks.
     on_ok (getitem networks (network self)) (\<lambda>attrs.
     getitem attrs ''IPAddress'')))))"

definition get_container_gateway_ip :: "world \<Rightarrow> manager \<Rightarrow> event list \<Rightarrow> exn + pyval" where
  "get_container_gateway_ip W self h =
     on_ok (wrapped_container_id self) (\<lambda>cid.
     on_ok (client_get_container W h cid) (\<lambda>container.
     on_ok (getitem container ''NetworkSettings'') (\<lambda>settings.
     on_ok (getitem settings ''Networks'') (\<lambda>networks.
     on_ok (getitem networks (network self)) (\<lambda>attrs.
     getitem attrs ''Gateway'')))))"

definition get_container_host_ip :: "world \<Rightarrow> manager \<Rightarrow> event list \<Rightarrow> exn + pyval" where
  "get_container_host_ip W self h =
     (case client_host W h of
        None \<Rightarrow> Inr (Str ''localhost'')
      | Some host \<Rightarrow>
          if host = [] then Inr (Str ''localhost'')
          else if inside_container W \<and> \<not> truthy (getenv W ''DOCKER_HOST'') then
            on_ok (get_container_gateway_ip W self h) (\<lambda>gateway_ip.
              if gateway_ip = Str host then get_container_internal_ip W self h
              else Inr gateway_ip)
          else Inr (Str host))"

text \<open>One line given to \<^verbatim>\<open>self.logger.info\<close>.\<close>

definition logger_info :: "string \<Rightarrow> event list \<Rightarrow> event list" where
  "logger_info msg h = h @ [LoggerInfo msg]"

text \<open>
  \<^verbatim>\<open>_forward_container_logs_to_logger\<close>: nothing without a handle; with one, the full
  timestamped log is read from the engine, decoded, cut at the line feeds and logged piece
  by piece. Reading and decoding may raise.
\<close>

definition u_forward_container_logs_to_logger ::
    "world \<Rightarrow> manager \<Rightarrow> event list \<Rightarrow> (exn + unit) \<times> event list" where
  "u_forward_container_logs_to_logger W self h =
     (case get_wrapped_container self of
        None \<Rightarrow> (Inr (), h)
      | Some container \<Rightarrow>
          (let h1 = h @ [ContainerLogs container True] in
           case on_ok (container_logs W h container True) decode of
             Inl e \<Rightarrow> (Inl e, h1)
           | Inr decoded \<Rightarrow> (Inr (), fold logger_info (split_on (CHR 0x0A) decoded) h1)))"

text \<open>\<^verbatim>\<open>_start\<close>: the handle is recorded only when the engine's run call returns.\<close>

definition u_start :: "world \<Rightarrow> manager \<Rightarrow> event list \<Rightarrow> (exn + unit) \<times> manager \<times> event list" where
  "u_start W self h =
     (let h1 = logger_info (''Pulling image: '' @ image self) h;
          args = \<lparr>arg_image = image self, arg_command = or_else (u_command self) [],
                  arg_detach = True, arg_environment = env self, arg_ports = ports self,
                  arg_name = u_name self, arg_volumes = volumes self,
                  arg_kwargs = u_kwargs self\<rparr>;
          h2 = h1 @ [ClientRun args]
      in case client_run W h1 args of
           Inl e \<Rightarrow> (Inl e, self, h2)
         | Inr c \<Rightarrow>
             (Inr (), self\<lparr>u_container := Some c\<rparr>,
              logger_info (''Container started: '' @ short_id c) h2))"

text \<open>The body of the \<^verbatim>\<open>try\<close> block of \<^verbatim>\<open>start\<close>.\<close>

definition start_body :: "world \<Rightarrow> manager \<Rightarrow> event list \<Rightarrow> (exn + unit) \<times> manager \<times> event list" where
  "start_body W self h =
     (case u_start W self h of
        (Inl e, self1, h1) \<Rightarrow> (Inl e, self1, h1)
      | (Inr _, self1, h1) \<Rightarrow>
          (case log_message_on_container_start W h1 self1 of
             Inl e \<Rightarrow> (Inl e, self1, h1)
           | Inr message \<Rightarrow>
               (Inr (), self1, if message \<noteq> [] then logger_info message h1 else h1)))"

text \<open>
  \<^verbatim>\<open>start\<close>: the handler forwards the logs and then executes a bare \<^verbatim>\<open>raise\<close>. An exception
  raised inside the handler leaves it in place of the one being handled.
\<close>

definition start :: "world \<Rightarrow> manager \<Rightarrow> event list \<Rightarrow> (exn + unit) \<times> manager \<times> event list" where
  "start W self h =
     (case start_body W self h of
        (Inr _, self1, h1) \<Rightarrow> (Inr (), self1, h1)
      | (Inl e, self1, h1) \<Rightarrow>
          (case u_forward_container_logs_to_logger W self1 h1 of
             (Inl e', h2) \<Rightarrow> (Inl e', self1, h2)
           | (Inr _, h2) \<Rightarrow> (Inl e, self1, h2)))"




definition restart :: "world \<Rightarrow> manager \<Rightarrow> event list \<Rightarrow> (exn + unit) \<times> manager \<times> event list" where
  "restart W self h =
     (case get_wrapped_container self of
        None \<Rightarrow> (Inl (Exn ''AttributeError'' ''NoneType object has no attribute restart''), self, h)
      | Some c \<Rightarrow> (container_restart W h c, self, h @ [ContainerRestart c]))"

text \<open>\<^verbatim>\<open>a or b\<close> on two \<^verbatim>\<open>Optional[str]\<close>.\<close>

definition py_or :: "string option \<Rightarrow> string option \<Rightarrow> string option" where
  "py_or a b = (if truthy a then a else b)"

text \<open>
  \<^verbatim>\<open>__init__\<close>. The base class's constructor keeps the image and stores the keyword
  arguments it is given, here the caller's together with \<^verbatim>\<open>network=self.network\<close>, as
  \<^verbatim>\<open>_kwargs\<close>; the other fields start empty and there is no handle. \<^verbatim>\<open>network\<close> is a
  parameter of its own, so the caller's keyword arguments never hold that key.
\<close>

definition DockerContainer_init ::
    "world \<Rightarrow> string \<Rightarrow> string option \<Rightarrow> (string \<times> pyval) list \<Rightarrow> manager" where
  "DockerContainer_init W img network_arg kwargs =
     (let net = or_else (py_or network_arg (getenv W ''TESTCONTAINER_DOCKER_NETWORK'')) ''bridge''
      in \<lparr>network = net, image = img, u_command = None, env = [], ports = [],
          u_name = None, volumes = [], u_kwargs = kwargs @ [(''network'', Str net)],
          u_container = None\<rparr>)"

section \<open>EphemeralDockerImage\<close>

text \<open>A \<^verbatim>\<open>pathlib.Path\<close>, known by the text \<^verbatim>\<open>str\<close> gives for it; a path is always true
  in a boolean context.\<close>

datatype path = Path string

fun str :: "path \<Rightarrow> string" where
  "str (Path s) = s"

text \<open>The attribute \<^verbatim>\<open>image\<close> is only declared by the class; it exists on the instance once
  \<^verbatim>\<open>build_image\<close> has assigned it (here \<open>built_image\<close>, \<open>None\<close> until then). The
  constructor's \<^verbatim>\<open>docker_client_kwargs\<close> only configure the engine client, which is a
  collaborator.\<close>

record ephemeral =
  dockerfile :: "string option"
  context_path :: string
  target :: "string option"
  built_image :: "docker_image option"

definition EphemeralDockerImage_init ::
    "path option \<Rightarrow> path option \<Rightarrow> string option \<Rightarrow> ephemeral" where
  "EphemeralDockerImage_init dockerfile_arg context_arg target_arg =
     \<lparr>dockerfile = (case dockerfile_arg of None \<Rightarrow> None | Some p \<Rightarrow> Some (str p)),
      context_path = (case context_arg of None \<Rightarrow> ''.'' | Some p \<Rightarrow> str p),
      target = target_arg,
      built_image = None\<rparr>"

text \<open>\<^verbatim>\<open>if v: cmd.extend([flag, v])\<close>.\<close>

definition extend_if :: "string \<Rightarrow> string option \<Rightarrow> string list" where
  "extend_if flag v = (case v of None \<Rightarrow> [] | Some s \<Rightarrow> if s = [] then [] else [flag, s])"

text \<open>\<^verbatim>\<open>str.strip()\<close>, on the white space of ASCII.\<close>

definition is_space :: "char \<Rightarrow> bool" where
  "is_space c = (let n = (of_char c :: nat) in (9 \<le> n \<and> n \<le> 13) \<or> (28 \<le> n \<and> n \<le> 32))"

definition strip :: "string \<Rightarrow> string" where
  "strip s = rev (dropWhile is_space (rev (dropWhile is_space s)))"

text \<open>\<^verbatim>\<open>subprocess.run(cmd, ..., check=True)\<close>: with \<^verbatim>\<open>check\<close> a non-zero exit status raises
  \<^verbatim>\<open>CalledProcessError\<close>.\<close>

definition run_checked :: "world \<Rightarrow> event list \<Rightarrow> string list \<Rightarrow> exn + completed_process" where
  "run_checked W h cmd =
     (case subprocess_run W h cmd of
        Inl e \<Rightarrow> Inl e
      | Inr result \<Rightarrow>
          if returncode result \<noteq> 0
          then Inl (Exn ''CalledProcessError'' ''command returned non-zero exit status'')
          else Inr result)"

definition buildkit_cmd :: "ephemeral \<Rightarrow> string list" where
  "buildkit_cmd self =
     [''docker'', ''build'', ''-q'', ''--rm=true'']
       @ extend_if ''-f'' (dockerfile self)
       @ extend_if ''--target'' (target self)
       @ [context_path self]"

definition u_build_with_docker_buildkit ::
    "world \<Rightarrow> ephemeral \<Rightarrow> event list \<Rightarrow> (exn + docker_image) \<times> event list" where
  "u_build_with_docker_buildkit W self h =
     (let cmd = buildkit_cmd self;
          h1 = h @ [SubprocessRun cmd]
      in case on_ok (run_checked W h cmd) (\<lambda>result. decode (stdout result)) of
           Inl e \<Rightarrow> (Inl e, h1)
         | Inr decoded \<Rightarrow>
             (let image_id = strip decoded in
              (images_get W h1 image_id, h1 @ [ImagesGet image_id])))"

definition u_build_with_docker_client ::
    "world \<Rightarrow> ephemeral \<Rightarrow> event list \<Rightarrow> (exn + docker_image) \<times> event list" where
  "u_build_with_docker_client W self h =
     (images_build W h (dockerfile self) (context_path self) (target self) True,
      h @ [ImagesBuild (dockerfile self) (context_path self) (target self) True])"

definition build_image :: "world \<Rightarrow> ephemeral \<Rightarrow> event list \<Rightarrow> (exn + unit) \<times> ephemeral \<times> event list" where
  "build_image W self h =
     (case (if truthy (getenv W ''DOCKER_BUILDKIT'')
            then u_build_with_docker_buildkit W self h
            else u_build_with_docker_client W self h) of
        (Inl e, h1) \<Rightarrow> (Inl e, self, h1)
      | (Inr img, h1) \<Rightarrow> (Inr (), self\<lparr>built_image := Some img\<rparr>, h1))"

definition remove_image :: "world \<Rightarrow> ephemeral \<Rightarrow> event list \<Rightarrow> (exn + unit) \<times> event list" where
  "remove_image W self h =
     (case built_image self of
        None \<Rightarrow> (Inl (Exn ''AttributeError'' ''EphemeralDockerImage object has no attribute image''), h)
      | Some img \<Rightarrow> (images_remove W h (image_id img), h @ [ImagesRemove (image_id img)]))"

definition enter :: "world \<Rightarrow> ephemeral \<Rightarrow> event list \<Rightarrow> (exn + docker_image) \<times> ephemeral \<times> event list" where
  "enter W self h =
     (case build_image W self h of
        (Inl e, self1, h1) \<Rightarrow> (Inl e, self1, h1)
      | (Inr _, self1, h1) \<Rightarrow>
          (case built_image self1 of
             None \<Rightarrow> (Inl (Exn ''AttributeError'' ''EphemeralDockerImage object has no attribute image''), self1, h1)
           | Some img \<Rightarrow> (Inr img, self1, h1)))"

text \<open>\<^verbatim>\<open>__exit__\<close> takes the exception of the body, if any, and does not look at it.\<close>

definition exit :: "world \<Rightarrow> ephemeral \<Rightarrow> exn option \<Rightarrow> event list \<Rightarrow> (exn + unit) \<times> event list" where
  "exit W self exc_val h = remove_image W self h"

text \<open>
  \<^verbatim>\<open>with EphemeralDockerImage(...) as image: body\<close>. When \<^verbatim>\<open>__enter__\<close> raises, neither the body
  nor \<^verbatim>\<open>__exit__\<close> runs. Otherwise the body runs, then \<^verbatim>\<open>__exit__\<close>; \<^verbatim>\<open>__exit__\<close> returns
  \<^verbatim>\<open>None\<close>, so an exception of the body is raised again after it, unless \<^verbatim>\<open>__exit__\<close>
  itself raised. The body sees the image and the history and adds its own events.
\<close>

definition with_image ::
    "world \<Rightarrow> ephemeral \<Rightarrow> (docker_image \<Rightarrow> event list \<Rightarrow> (exn + 'a) \<times> event list) \<Rightarrow> event list
      \<Rightarrow> (exn + 'a) \<times> ephemeral \<times> event list" where
  "with_image W self body h =
     (case enter W self h of
        (Inl e, self1, h1) \<Rightarrow> (Inl e, self1, h1)
      | (Inr img, self1, h1) \<Rightarrow>
          (case body img h1 of
             (r, h2) \<Rightarrow>
               (case exit W self1 (case r of Inl e \<Rightarrow> Some e | Inr _ \<Rightarrow> None) h2 of
                  (Inl e', h3) \<Rightarrow> (Inl e', self1, h3)
                | (Inr _, h3) \<Rightarrow> (r, self1, h3))))"

section \<open>The probe engine\<close>

text \<open>
  A check is a callable with no argument whose outcome may differ from one invocation to the
  next: here a function from the number of the invocation (from 0) to its outcome and to the
  time it takes. Time is counted in whole units of a clock that starts at 0 when the probe is
  called; an outcome is paired with the number of invocations made and the time of return.
\<close>

type_synonym 'a check = "nat \<Rightarrow> (exn + 'a) \<times> nat"

text \<open>
  Modelled from the spec: \<^verbatim>\<open>probe_until\<close> of the module
  \<^verbatim>\<open>tomodachi_testcontainers.pytest.async_probes\<close>, which is missing from the sources (only
  its tests are there). The spec: invoke the check repeatedly at \<^verbatim>\<open>probe_interval\<close> spacing;
  on success return the check's result immediately; on failure retry until the cumulative
  elapsed time exceeds \<^verbatim>\<open>stop_after\<close>, and on the final failure raise the last exception of
  the check as it is.
\<close>

partial_function (option) probe_until_from ::
    "'a check \<Rightarrow> nat \<Rightarrow> nat \<Rightarrow> nat \<Rightarrow> nat \<Rightarrow> ((exn + 'a) \<times> nat \<times> nat) option" where
  "probe_until_from check probe_interval stop_after i now =
     (let elapsed = now + snd (check i) in
      case fst (check i) of
        Inr v \<Rightarrow> Some (Inr v, Suc i, elapsed)
      | Inl e \<Rightarrow>
          if elapsed > stop_after then Some (Inl e, Suc i, elapsed)
          else probe_until_from check probe_interval stop_after (Suc i) (elapsed + probe_interval))"

declare probe_until_from.simps [code]

definition probe_until :: "'a check \<Rightarrow> nat \<Rightarrow> nat \<Rightarrow> ((exn + 'a) \<times> nat \<times> nat) option" where
  "probe_until check probe_interval stop_after =
     probe_until_from check probe_interval stop_after 0 0"

text \<open>
  Modelled from the spec: \<^verbatim>\<open>probe_during_interval\<close> of the same missing module. The spec:
  invoke the check repeatedly at \<^verbatim>\<open>probe_interval\<close> spacing for the entire \<^verbatim>\<open>stop_after\<close>
  duration; every invocation must succeed; the first failure aborts at once and raises that
  exception as it is. On success the result of the last invocation is returned, as the tests
  of the module expect.
\<close>

partial_function (option) probe_during_interval_from ::
    "'a check \<Rightarrow> nat \<Rightarrow> nat \<Rightarrow> nat \<Rightarrow> nat \<Rightarrow> ((exn + 'a) \<times> nat \<times> nat) option" where
  "probe_during_interval_from check probe_interval stop_after i now =
     (let elapsed = now + snd (check i) in
      case fst (check i) of
        Inl e \<Rightarrow> Some (Inl e, Suc i, elapsed)
      | Inr v \<Rightarrow>
          if elapsed > stop_after then Some (Inr v, Suc i, elapsed)
          else probe_during_interval_from check probe_interval stop_after (Suc i)
                 (elapsed + probe_interval))"

declare probe_during_interval_from.simps [code]

definition probe_during_interval ::
    "'a check \<Rightarrow> nat \<Rightarrow> nat \<Rightarrow> ((exn + 'a) \<times> nat \<times> nat) option" where
  "probe_during_interval check probe_interval stop_after =
     probe_during_interval_from check probe_interval stop_after 0 0"

text \<open>The time at which invocation \<open>k\<close> begins and the time at which it ends, when every
  invocation before it was followed by a wait of \<open>probe_interval\<close>.\<close>

fun begins :: "'a check \<Rightarrow> nat \<Rightarrow> nat \<Rightarrow> nat" where
  "begins check probe_interval 0 = 0"
| "begins check probe_interval (Suc k) =
     begins check probe_interval k + snd (check k) + probe_interval"

definition ends :: "'a check \<Rightarrow> nat \<Rightarrow> nat \<Rightarrow> nat" where
  "ends check probe_interval k = begins check probe_interval k + snd (check k)"

definition fails :: "'a check \<Rightarrow> nat \<Rightarrow> bool" where
  "fails check i = (case fst (check i) of Inl e \<Rightarrow> True | Inr v \<Rightarrow> False)"

section \<open>Concrete collaborators\<close>

text \<open>
  An engine with one container to run: its log is readable until the container has been
  removed, removing it twice is refused, and the base class's stop does nothing when there
  is no handle.
\<close>

definition alpine :: container where
  "alpine = \<lparr>container_id = ''4f2a9c01d3b7'', short_id = ''4f2a9c''\<rparr>"

definition removed :: "event list \<Rightarrow> container \<Rightarrow> bool" where
  "removed h c = (SuperStop (Some c) True True \<in> set h)"

definition not_found :: exn where
  "not_found = Exn ''NotFound'' ''No such container''"

definition inspect_document :: "string \<Rightarrow> string \<Rightarrow> string \<Rightarrow> pyval" where
  "inspect_document net ip gw =
     Dict [(''Id'', Str ''4f2a9c01d3b7''),
           (''NetworkSettings'',
              Dict [(''Networks'',
                 Dict [(net, Dict [(''Gateway'', Str gw), (''IPAddress'', Str ip)])])])]"

definition built :: docker_image where
  "built = \<lparr>image_id = ''sha256:9b1e''\<rparr>"

definition host_world :: world where
  "host_world =
     \<lparr>environ = Map.empty,
      inside_container = False,
      client_host = (\<lambda>h. Some ''localhost''),
      client_get_container = (\<lambda>h cid.
         if cid = ''4f2a9c01d3b7'' then Inr (inspect_document ''bridge'' ''172.17.0.2'' ''172.17.0.1'')
         else Inl (Exn ''RuntimeError'' ''Could not get container'')),
      client_run = (\<lambda>h args. Inr alpine),
      container_logs = (\<lambda>h c timestamps.
         if removed h c then Inl not_found else Inr ''t1 booting\<newline>t2 ready''),
      container_restart = (\<lambda>h c. if removed h c then Inl not_found else Inr ()),
      super_stop = (\<lambda>h c force delete_volume.
         case c of None \<Rightarrow> Inr ()
         | Some c' \<Rightarrow> if removed h c' then Inl not_found else Inr ()),
      log_message_on_container_start = (\<lambda>h self. Inr ''Working container started''),
      subprocess_run = (\<lambda>h cmd.
         Inr \<lparr>returncode = 0, stdout = ''sha256:9b1e\<newline>'', stderr = []\<rparr>),
      images_get = (\<lambda>h i. if i = ''sha256:9b1e'' then Inr built
                          else Inl (Exn ''ImageNotFound'' i)),
      images_build = (\<lambda>h df p t forcerm. Inr built),
      images_remove = (\<lambda>h i. Inr ())\<rparr>"

text \<open>The test suite's container, before and after a start on that engine.\<close>

definition working_container :: manager where
  "working_container =
     (DockerContainer_init host_world ''alpine:latest'' None [])\<lparr>u_command := Some ''sleep infinity''\<rparr>"

definition started_container :: manager where
  "started_container = working_container\<lparr>u_container := Some alpine\<rparr>"

text \<open>The caller runs in a container of its own. In the first world the engine is reached at
  the gateway of the container's network, in the second at another address.\<close>

definition nested_world :: world where
  "nested_world = host_world\<lparr>inside_container := True, client_host := (\<lambda>h. Some ''172.17.0.1'')\<rparr>"

definition sibling_world :: world where
  "sibling_world = host_world\<lparr>inside_container := True, client_host := (\<lambda>h. Some ''192.168.65.2'')\<rparr>"

text \<open>A subclass whose start message cannot be computed, on an engine whose container has
  written a byte that is not UTF-8 to its log.\<close>

definition port_error :: exn where
  "port_error = Exn ''RuntimeError'' ''port 8080 is not exposed''"

definition binary_log_world :: world where
  "binary_log_world =
     host_world\<lparr>log_message_on_container_start := (\<lambda>h self. Inl port_error),
                container_logs := (\<lambda>h c timestamps. Inr [CHR 0xFF])\<rparr>"

text \<open>The same subclass on the engine whose log is readable.\<close>

definition failing_hook_world :: world where
  "failing_hook_world = host_world\<lparr>log_message_on_container_start := (\<lambda>h self. Inl port_error)\<rparr>"

text \<open>An engine that refuses to run the container: the command is not in the image.\<close>

definition no_such_command :: exn where
  "no_such_command = Exn ''APIError'' ''exec: foo: executable file not found in $PATH''"

definition refusing_world :: world where
  "refusing_world = host_world\<lparr>client_run := (\<lambda>h args. Inl no_such_command)\<rparr>"

text \<open>A build server: the network of the test containers is named by the environment, and
  the container is attached to that network.\<close>

definition ci_world :: world where
  "ci_world =
     host_world\<lparr>environ := [''TESTCONTAINER_DOCKER_NETWORK'' \<mapsto> ''ci-net''],
                client_get_container :=
                  (\<lambda>h cid. Inr (inspect_document ''ci-net'' ''10.5.0.2'' ''10.5.0.1''))\<rparr>"

text \<open>The advanced builder is switched on; a build of the last stage of a Dockerfile, and a
  build with neither a Dockerfile nor a target named.\<close>

definition buildkit_world :: world where
  "buildkit_world = host_world\<lparr>environ := [''DOCKER_BUILDKIT'' \<mapsto> ''1'']\<rparr>"

definition release_build :: ephemeral where
  "release_build =
     EphemeralDockerImage_init (Some (Path ''/tmp/Dockerfile'')) None (Some ''release'')"

definition plain_build :: ephemeral where
  "plain_build = EphemeralDockerImage_init None (Some (Path ''/srv/app'')) None"

text \<open>The builder exits with status 1.\<close>

definition failing_build_world :: world where
  "failing_build_world =
     buildkit_world\<lparr>subprocess_run := (\<lambda>h cmd.
        Inr \<lparr>returncode = 1, stdout = [], stderr = ''failed to solve''\<rparr>)\<rparr>"

text \<open>Two bodies of a \<^verbatim>\<open>with\<close> block: one reads the image and completes, one raises.\<close>

definition inspecting_body :: "docker_image \<Rightarrow> event list \<Rightarrow> (exn + string) \<times> event list" where
  "inspecting_body img h = (Inr (image_id img), h @ [ImagesGet (image_id img)])"

definition raising_body :: "docker_image \<Rightarrow> event list \<Rightarrow> (exn + string) \<times> event list" where
  "raising_body img h = (Inl (Exn ''AssertionError'' ''assert False''), h)"

text \<open>
  The checks of the module's tests: each invocation pops the next entry of a list and asserts
  it, or raises \<^verbatim>\<open>ValueError\<close> when it is false; a pop from the emptied list raises
  \<^verbatim>\<open>IndexError\<close>. The clock counts milliseconds and an invocation takes one.
\<close>

definition assertion_error :: exn where
  "assertion_error = Exn ''AssertionError'' ''assert False''"

definition value_error :: exn where
  "value_error = Exn ''ValueError'' ''Something went wrong''"

definition popping :: "bool list \<Rightarrow> bool check" where
  "popping attempts i =
     (if i < length attempts then (if attempts ! i then Inr True else Inl assertion_error)
      else Inl (Exn ''IndexError'' ''pop from empty list''),
      1)"

definition raising_on_false :: "bool list \<Rightarrow> bool check" where
  "raising_on_false attempts i =
     (if i < length attempts then (if attempts ! i then Inr True else Inl value_error)
      else Inl (Exn ''IndexError'' ''pop from empty list''),
      1)"

section \<open>Facts about the concrete collaborators\<close>

lemmas world_defs = host_world_def nested_world_def sibling_world_def inspect_document_def
  alpine_def working_container_def started_container_def DockerContainer_init_def
  getenv_def truthy_def or_else_def py_or_def Let_def

lemma nested_gateway:
  "get_container_gateway_ip nested_world started_container [] = Inr (Str ''172.17.0.1'')"
  by (simp add: get_container_gateway_ip_def wrapped_container_id_def
      get_wrapped_container_def on_ok_def world_defs)

lemma nested_internal:
  "get_container_internal_ip nested_world started_container [] = Inr (Str ''172.17.0.2'')"
  by (simp add: get_container_internal_ip_def wrapped_container_id_def
      get_wrapped_container_def on_ok_def world_defs)

lemma sibling_gateway:
  "get_container_gateway_ip sibling_world started_container [] = Inr (Str ''172.17.0.1'')"
  by (simp add: get_container_gateway_ip_def wrapped_container_id_def
      get_wrapped_container_def on_ok_def world_defs)


lemma started_container_handle: "u_container started_container = Some alpine"
  by (simp add: started_container_def)

lemma working_container_handle: "u_container working_container = None"
  by (simp add: working_container_def DockerContainer_init_def Let_def)

section \<open>Address resolution\<close>

text \<open>
  C1. \<^verbatim>\<open>get_container_host_ip\<close> follows this algorithm. When the engine client reports no
  host (\<^verbatim>\<open>None\<close> or the empty string, which Python's \<^verbatim>\<open>not host\<close> treats alike) the result
  is the text \<^verbatim>\<open>localhost\<close>. Otherwise, when the caller runs inside a container and
  \<^verbatim>\<open>DOCKER_HOST\<close> is unset or empty, the gateway IP of the container is read: if it equals the
  engine host the result is the container's internal IP, if not it is the gateway IP, and if
  reading it raises, that exception is the outcome. In every other case the result is the engine
  host as it is.
\<close>

theorem get_container_host_ip_algorithm:
  "(\<not> truthy (client_host W h) \<longrightarrow> get_container_host_ip W self h = Inr (Str ''localhost''))
   \<and> (\<forall>host. client_host W h = Some host \<and> host \<noteq> [] \<longrightarrow>
        (inside_container W \<and> \<not> truthy (getenv W ''DOCKER_HOST'') \<longrightarrow>
           (\<forall>gateway_ip. get_container_gateway_ip W self h = Inr gateway_ip \<longrightarrow>
              (gateway_ip = Str host \<longrightarrow>
                 get_container_host_ip W self h = get_container_internal_ip W self h)
              \<and> (gateway_ip \<noteq> Str host \<longrightarrow>
                 get_container_host_ip W self h = Inr gateway_ip))
           \<and> (\<forall>e. get_container_gateway_ip W self h = Inl e \<longrightarrow>
                 get_container_host_ip W self h = Inl e))
        \<and> (\<not> (inside_container W \<and> \<not> truthy (getenv W ''DOCKER_HOST'')) \<longrightarrow>
              get_container_host_ip W self h = Inr (Str host)))"
  by (auto simp: get_container_host_ip_def truthy_def on_ok_def split: option.splits)

text \<open>
  The five ways through the algorithm: no host; inside a container with the engine at the
  gateway; inside a container with the engine elsewhere; inside a container with
  \<^verbatim>\<open>DOCKER_HOST\<close> set; on the host.
\<close>

theorem get_container_host_ip_algorithm_witness:
  "get_container_host_ip (host_world\<lparr>client_host := (\<lambda>h. None)\<rparr>) started_container []
     = Inr (Str ''localhost'')
   \<and> get_container_host_ip nested_world started_container [] = Inr (Str ''172.17.0.2'')
   \<and> get_container_host_ip sibling_world started_container [] = Inr (Str ''172.17.0.1'')
   \<and> get_container_host_ip
        (sibling_world\<lparr>environ := [''DOCKER_HOST'' \<mapsto> ''tcp://10.0.0.5:2375'']\<rparr>)
        started_container [] = Inr (Str ''192.168.65.2'')
   \<and> get_container_host_ip host_world started_container [] = Inr (Str ''localhost'')"
  using
    get_container_host_ip_algorithm
      [of "host_world\<lparr>client_host := (\<lambda>h. None)\<rparr>" "[]" started_container]
    get_container_host_ip_algorithm [of nested_world "[]" started_container]
    get_container_host_ip_algorithm [of sibling_world "[]" started_container]
    get_container_host_ip_algorithm
      [of "sibling_world\<lparr>environ := [''DOCKER_HOST'' \<mapsto> ''tcp://10.0.0.5:2375'']\<rparr>" "[]"
        started_container]
    get_container_host_ip_algorithm [of host_world "[]" started_container]
    nested_gateway nested_internal sibling_gateway
  by (simp add: world_defs)

section \<open>Log forwarding and stopping\<close>

lemma fold_logger_info: "fold logger_info xs h = h @ map LoggerInfo xs"
  by (induction xs arbitrary: h) (simp_all add: logger_info_def)

lemma forward_without_handle:
  "u_container self = None \<Longrightarrow> u_forward_container_logs_to_logger W self h = (Inr (), h)"
  by (simp add: u_forward_container_logs_to_logger_def get_wrapped_container_def)

lemma forward_with_handle:
  "u_container self = Some c \<Longrightarrow>
   u_forward_container_logs_to_logger W self h =
     (case on_ok (container_logs W h c True) decode of
        Inl e \<Rightarrow> (Inl e, h @ [ContainerLogs c True])
      | Inr decoded \<Rightarrow>
          (Inr (), h @ [ContainerLogs c True] @ map LoggerInfo (split_on (CHR 0x0A) decoded)))"
  by (simp add: u_forward_container_logs_to_logger_def get_wrapped_container_def
      fold_logger_info Let_def split: sum.splits)










section \<open>Starting\<close>

lemma start_body_with_failing_hook:
  assumes "client_run W = (\<lambda>h args. Inr alpine)"
    and "log_message_on_container_start W = (\<lambda>h self. Inl e)"
  shows "start_body W working_container [] =
     (Inl e, started_container,
      [LoggerInfo ''Pulling image: alpine:latest'',
       ClientRun \<lparr>arg_image = ''alpine:latest'', arg_command = ''sleep infinity'',
         arg_detach = True, arg_environment = [], arg_ports = [], arg_name = None,
         arg_volumes = [], arg_kwargs = [(''network'', Str ''bridge'')]\<rparr>,
       LoggerInfo ''Container started: 4f2a9c''])"
  using assms
  by (simp add: start_body_def u_start_def logger_info_def world_defs)

lemma start_body_refused:
  "start_body refusing_world working_container [] =
     (Inl no_such_command, working_container,
      [LoggerInfo ''Pulling image: alpine:latest'',
       ClientRun \<lparr>arg_image = ''alpine:latest'', arg_command = ''sleep infinity'',
         arg_detach = True, arg_environment = [], arg_ports = [], arg_name = None,
         arg_volumes = [], arg_kwargs = [(''network'', Str ''bridge'')]\<rparr>])"
  by (simp add: start_body_def u_start_def logger_info_def refusing_world_def world_defs)

lemma binary_log_not_forwarded:
  "u_forward_container_logs_to_logger binary_log_world started_container h =
     (Inl (Exn ''UnicodeDecodeError'' ''utf-8 codec cannot decode bytes''),
      h @ [ContainerLogs alpine True])"
  by (simp add: forward_with_handle started_container_handle on_ok_def decode_def
      binary_log_world_def)

text \<open>
  C3, as stated: every failure raised during \<^verbatim>\<open>start\<close> leaves \<^verbatim>\<open>start\<close> unchanged, after
  the logs were forwarded. It fails where forwarding the logs raises in its turn. Here the
  subclass's message method raises \<^verbatim>\<open>RuntimeError\<close> after the container was created, the
  handler reads the container's log, the log holds the byte 0xFF, and \<^verbatim>\<open>decode\<close> raises
  \<^verbatim>\<open>UnicodeDecodeError\<close>: that exception leaves \<^verbatim>\<open>start\<close>, and no line was forwarded.
\<close>

theorem start_reraise_counterexample:
  "fst (start_body binary_log_world working_container [])
     = Inl (Exn ''RuntimeError'' ''port 8080 is not exposed'')
   \<and> fst (start binary_log_world working_container [])
     = Inl (Exn ''UnicodeDecodeError'' ''utf-8 codec cannot decode bytes'')"
proof -
  have "start_body binary_log_world working_container [] =
     (Inl port_error, started_container,
      [LoggerInfo ''Pulling image: alpine:latest'',
       ClientRun \<lparr>arg_image = ''alpine:latest'', arg_command = ''sleep infinity'',
         arg_detach = True, arg_environment = [], arg_ports = [], arg_name = None,
         arg_volumes = [], arg_kwargs = [(''network'', Str ''bridge'')]\<rparr>,
       LoggerInfo ''Container started: 4f2a9c''])"
    by (rule start_body_with_failing_hook)
      (simp_all add: binary_log_world_def host_world_def)
  then show ?thesis
    by (simp add: start_def binary_log_not_forwarded port_error_def)
qed

text \<open>
  C3, amended. Let the body of \<^verbatim>\<open>start\<close> raise \<open>e\<close>. When the manager holds no handle at
  that point, nothing is forwarded and \<open>e\<close> leaves \<^verbatim>\<open>start\<close> as it is. When it holds a
  handle and the container's log is read and decoded, the log is requested with timestamps,
  every line of it is given to the logger, in order, and then \<open>e\<close> leaves \<^verbatim>\<open>start\<close> as it
  is: same class, same message. In both cases the manager is as the body left it.
\<close>

theorem start_failure_reraised_after_logs:
  assumes "start_body W self h = (Inl e, self1, h1)"
  shows "(u_container self1 = None \<longrightarrow> start W self h = (Inl e, self1, h1))
         \<and> (\<forall>c logs decoded.
               u_container self1 = Some c \<and> container_logs W h1 c True = Inr logs
               \<and> decode logs = Inr decoded \<longrightarrow>
               start W self h =
                 (Inl e, self1,
                  h1 @ [ContainerLogs c True] @ map LoggerInfo (split_on (CHR 0x0A) decoded)))"
  using assms
  by (auto simp: start_def forward_without_handle forward_with_handle on_ok_def)

text \<open>
  On the engine that refuses to run the container no handle is recorded, and the engine's
  error leaves \<^verbatim>\<open>start\<close> with nothing forwarded. With the failing message method on the
  engine whose log is readable, the two lines of the log reach the logger and then the
  method's own error leaves \<^verbatim>\<open>start\<close>.
\<close>

theorem start_failure_reraised_after_logs_witness:
  "start_body refusing_world working_container [] =
     (Inl no_such_command, working_container,
      [LoggerInfo ''Pulling image: alpine:latest'',
       ClientRun \<lparr>arg_image = ''alpine:latest'', arg_command = ''sleep infinity'',
         arg_detach = True, arg_environment = [], arg_ports = [], arg_name = None,
         arg_volumes = [], arg_kwargs = [(''network'', Str ''bridge'')]\<rparr>])
   \<and> u_container working_container = None
   \<and> start refusing_world working_container [] =
     (Inl no_such_command, working_container,
      [LoggerInfo ''Pulling image: alpine:latest'',
       ClientRun \<lparr>arg_image = ''alpine:latest'', arg_command = ''sleep infinity'',
         arg_detach = True, arg_environment = [], arg_ports = [], arg_name = None,
         arg_volumes = [], arg_kwargs = [(''network'', Str ''bridge'')]\<rparr>])
   \<and> fst (start_body failing_hook_world working_container []) = Inl port_error
   \<and> start failing_hook_world working_container [] =
     (Inl port_error, started_container,
      [LoggerInfo ''Pulling image: alpine:latest'',
       ClientRun \<lparr>arg_image = ''alpine:latest'', arg_command = ''sleep infinity'',
         arg_detach = True, arg_environment = [], arg_ports = [], arg_name = None,
         arg_volumes = [], arg_kwargs = [(''network'', Str ''bridge'')]\<rparr>,
       LoggerInfo ''Container started: 4f2a9c'',
       ContainerLogs alpine True, LoggerInfo ''t1 booting'', LoggerInfo ''t2 ready''])"
proof -
  have hook: "start_body failing_hook_world working_container [] =
     (Inl port_error, started_container,
      [LoggerInfo ''Pulling image: alpine:latest'',
       ClientRun \<lparr>arg_image = ''alpine:latest'', arg_command = ''sleep infinity'',
         arg_detach = True, arg_environment = [], arg_ports = [], arg_name = None,
         arg_volumes = [], arg_kwargs = [(''network'', Str ''bridge'')]\<rparr>,
       LoggerInfo ''Container started: 4f2a9c''])"
    by (rule start_body_with_failing_hook) (simp_all add: failing_hook_world_def host_world_def)
  have logs: "container_logs failing_hook_world h alpine True = Inr ''t1 booting\<newline>t2 ready''"
    if "\<not> removed h alpine" for h
    using that by (simp add: failing_hook_world_def host_world_def)
  have dec: "decode ''t1 booting\<newline>t2 ready'' = Inr ''t1 booting\<newline>t2 ready''"
    by (simp add: decode_def cont_def)
  show ?thesis
    using start_failure_reraised_after_logs [OF start_body_refused]
      start_failure_reraised_after_logs [OF hook]
      start_body_refused hook working_container_handle started_container_handle logs dec
    by (simp add: removed_def)
qed

section \<open>Restarting\<close>

text \<open>
  C9. On a manager that holds a handle, \<^verbatim>\<open>restart\<close> makes one call, the engine's restart of
  that container, and its outcome is the outcome of that call. The manager is returned as it
  was, so the handle is the same before and after. Nothing is given to the logger and the
  engine's run call, which is what pulls an image, is not made.
\<close>

theorem restart_keeps_handle:
  assumes "u_container self = Some c"
  shows "restart W self h = (container_restart W h c, self, h @ [ContainerRestart c])
         \<and> u_container (fst (snd (restart W self h))) = Some c
         \<and> (\<forall>msg. LoggerInfo msg \<notin> set (drop (length h) (snd (snd (restart W self h)))))
         \<and> (\<forall>args. ClientRun args \<notin> set (drop (length h) (snd (snd (restart W self h)))))"
  using assms by (simp add: restart_def get_wrapped_container_def)

text \<open>The started container of the test suite: one restart call, the same manager.\<close>

theorem restart_keeps_handle_witness:
  "u_container started_container = Some alpine
   \<and> restart host_world started_container [] = (Inr (), started_container, [ContainerRestart alpine])"
  using restart_keeps_handle [OF started_container_handle, of host_world "[]"]
    started_container_handle
  by (simp add: host_world_def removed_def)

section \<open>The network name\<close>

text \<open>
  C10. The network name of a manager is fixed by its constructor: the \<^verbatim>\<open>network\<close> argument
  when it is given and not empty, otherwise the environment variable
  \<^verbatim>\<open>TESTCONTAINER_DOCKER_NETWORK\<close> when it is set and not empty, otherwise the text
  \<^verbatim>\<open>bridge\<close>. That value is the \<^verbatim>\<open>network\<close> keyword argument stored for the engine's run
  call and passed with it when the container is created, creating the container does not
  change it, and it is the key under which both \<^verbatim>\<open>get_container_internal_ip\<close> and
  \<^verbatim>\<open>get_container_gateway_ip\<close> look in the \<^verbatim>\<open>Networks\<close> dictionary of the inspection
  document (a missing key raises \<^verbatim>\<open>KeyError\<close>).
\<close>

theorem network_name_fixed_at_construction:
  assumes "self = DockerContainer_init W img network_arg kwargs"
  shows "(\<forall>n. network_arg = Some n \<and> n \<noteq> [] \<longrightarrow> network self = n)
   \<and> (\<not> truthy network_arg \<longrightarrow>
        (\<forall>v. getenv W ''TESTCONTAINER_DOCKER_NETWORK'' = Some v \<and> v \<noteq> [] \<longrightarrow> network self = v)
        \<and> (\<not> truthy (getenv W ''TESTCONTAINER_DOCKER_NETWORK'') \<longrightarrow> network self = ''bridge''))
   \<and> u_kwargs self = kwargs @ [(''network'', Str (network self))]
   \<and> (\<exists>args rest.
         snd (snd (u_start W self h))
           = h @ [LoggerInfo (''Pulling image: '' @ img), ClientRun args] @ rest
         \<and> arg_kwargs args = kwargs @ [(''network'', Str (network self))])
   \<and> network (fst (snd (u_start W self h))) = network self
   \<and> (\<forall>c doc settings nets.
         client_get_container W h (container_id c) = Inr doc
         \<and> getitem doc ''NetworkSettings'' = Inr settings
         \<and> getitem settings ''Networks'' = Inr nets \<longrightarrow>
         get_container_internal_ip W (self\<lparr>u_container := Some c\<rparr>) h
           = on_ok (getitem nets (network self)) (\<lambda>attrs. getitem attrs ''IPAddress'')
         \<and> get_container_gateway_ip W (self\<lparr>u_container := Some c\<rparr>) h
           = on_ok (getitem nets (network self)) (\<lambda>attrs. getitem attrs ''Gateway''))"
proof -
  have name: "network self = or_else (py_or network_arg (getenv W ''TESTCONTAINER_DOCKER_NETWORK'')) ''bridge''"
    and kw: "u_kwargs self = kwargs @ [(''network'', Str (network self))]"
    and img: "image self = img"
    using assms by (simp_all add: DockerContainer_init_def Let_def)
  have one: "\<forall>n. network_arg = Some n \<and> n \<noteq> [] \<longrightarrow> network self = n"
    by (simp add: name or_else_def py_or_def truthy_def)
  have two: "\<not> truthy network_arg \<longrightarrow>
        (\<forall>v. getenv W ''TESTCONTAINER_DOCKER_NETWORK'' = Some v \<and> v \<noteq> [] \<longrightarrow> network self = v)
        \<and> (\<not> truthy (getenv W ''TESTCONTAINER_DOCKER_NETWORK'') \<longrightarrow> network self = ''bridge'')"
    by (auto simp: name or_else_def py_or_def truthy_def split: option.splits)
  have run: "\<exists>args rest.
         snd (snd (u_start W self h))
           = h @ [LoggerInfo (''Pulling image: '' @ img), ClientRun args] @ rest
         \<and> arg_kwargs args = kwargs @ [(''network'', Str (network self))]"
    by (cases "client_run W (logger_info (''Pulling image: '' @ img) h)
                \<lparr>arg_image = img, arg_command = or_else (u_command self) [],
                  arg_detach = True, arg_environment = env self, arg_ports = ports self,
                  arg_name = u_name self, arg_volumes = volumes self,
                  arg_kwargs = u_kwargs self\<rparr>")
      (simp_all add: u_start_def Let_def logger_info_def kw [symmetric] img)
  have keep: "network (fst (snd (u_start W self h))) = network self"
    by (simp add: u_start_def Let_def split: sum.splits)
  have ips: "\<forall>c doc settings nets.
         client_get_container W h (container_id c) = Inr doc
         \<and> getitem doc ''NetworkSettings'' = Inr settings
         \<and> getitem settings ''Networks'' = Inr nets \<longrightarrow>
         get_container_internal_ip W (self\<lparr>u_container := Some c\<rparr>) h
           = on_ok (getitem nets (network self)) (\<lambda>attrs. getitem attrs ''IPAddress'')
         \<and> get_container_gateway_ip W (self\<lparr>u_container := Some c\<rparr>) h
           = on_ok (getitem nets (network self)) (\<lambda>attrs. getitem attrs ''Gateway'')"
    by (simp add: get_container_internal_ip_def get_container_gateway_ip_def
        wrapped_container_id_def get_wrapped_container_def on_ok_def)
  show ?thesis
    using one two kw run keep ips by blast
qed

lemma ci_lookup:
  "client_get_container ci_world h (container_id c)
     = Inr (inspect_document ''ci-net'' ''10.5.0.2'' ''10.5.0.1'')"
  "getitem (inspect_document ''ci-net'' ''10.5.0.2'' ''10.5.0.1'') ''NetworkSettings''
     = Inr (Dict [(''Networks'',
              Dict [(''ci-net'', Dict [(''Gateway'', Str ''10.5.0.1''), (''IPAddress'', Str ''10.5.0.2'')])])])"
  "getitem (Dict [(''Networks'',
              Dict [(''ci-net'', Dict [(''Gateway'', Str ''10.5.0.1''), (''IPAddress'', Str ''10.5.0.2'')])])]) ''Networks''
     = Inr (Dict [(''ci-net'', Dict [(''Gateway'', Str ''10.5.0.1''), (''IPAddress'', Str ''10.5.0.2'')])])"
  by (simp_all add: ci_world_def inspect_document_def)

text \<open>
  The three sources of the name, the stored keyword argument, the two look-ups on the network
  named by the environment, and the \<^verbatim>\<open>KeyError\<close> of a manager whose network the container is
  not attached to.
\<close>

theorem network_name_fixed_at_construction_witness:
  "network (DockerContainer_init ci_world ''alpine:latest'' (Some ''my-net'') []) = ''my-net''
   \<and> network (DockerContainer_init ci_world ''alpine:latest'' None []) = ''ci-net''
   \<and> network (DockerContainer_init host_world ''alpine:latest'' (Some []) []) = ''bridge''
   \<and> u_kwargs (DockerContainer_init ci_world ''alpine:latest'' None [(''privileged'', Str ''true'')])
       = [(''privileged'', Str ''true''), (''network'', Str ''ci-net'')]
   \<and> get_container_internal_ip ci_world
        ((DockerContainer_init ci_world ''alpine:latest'' None [])\<lparr>u_container := Some alpine\<rparr>) []
       = Inr (Str ''10.5.0.2'')
   \<and> get_container_gateway_ip ci_world
        ((DockerContainer_init ci_world ''alpine:latest'' None [])\<lparr>u_container := Some alpine\<rparr>) []
       = Inr (Str ''10.5.0.1'')
   \<and> get_container_internal_ip ci_world
        ((DockerContainer_init ci_world ''alpine:latest'' (Some ''my-net'') [])\<lparr>u_container := Some alpine\<rparr>) []
       = Inl (Exn ''KeyError'' ''my-net'')"
proof -
  have env: "getenv ci_world ''TESTCONTAINER_DOCKER_NETWORK'' = Some ''ci-net''"
    "getenv host_world ''TESTCONTAINER_DOCKER_NETWORK'' = None"
    by (simp_all add: getenv_def ci_world_def host_world_def)
  note a = network_name_fixed_at_construction
      [where W = ci_world and img = "''alpine:latest''" and network_arg = "Some ''my-net''"
        and kwargs = "[]" and h = "[]", OF refl]
  note b = network_name_fixed_at_construction
      [where W = ci_world and img = "''alpine:latest''" and network_arg = None
        and kwargs = "[]" and h = "[]", OF refl]
  note c = network_name_fixed_at_construction
      [where W = host_world and img = "''alpine:latest''" and network_arg = "Some []"
        and kwargs = "[]" and h = "[]", OF refl]
  note d = network_name_fixed_at_construction
      [where W = ci_world and img = "''alpine:latest''" and network_arg = None
        and kwargs = "[(''privileged'', Str ''true'')]" and h = "[]", OF refl]
  have n1: "network (DockerContainer_init ci_world ''alpine:latest'' (Some ''my-net'') []) = ''my-net''"
    using a by simp
  have n2: "network (DockerContainer_init ci_world ''alpine:latest'' None []) = ''ci-net''"
    using b env by (simp add: truthy_def)
  have n3: "network (DockerContainer_init host_world ''alpine:latest'' (Some []) []) = ''bridge''"
    using c env by (simp add: truthy_def)
  have n4: "network (DockerContainer_init ci_world ''alpine:latest'' None [(''privileged'', Str ''true'')]) = ''ci-net''"
    using d env by (simp add: truthy_def)
  have k: "u_kwargs (DockerContainer_init ci_world ''alpine:latest'' None [(''privileged'', Str ''true'')])
       = [(''privileged'', Str ''true''), (''network'', Str ''ci-net'')]"
    using d n4 by simp
  let ?nets = "Dict [(''ci-net'', Dict [(''Gateway'', Str ''10.5.0.1''), (''IPAddress'', Str ''10.5.0.2'')])]"
  have b': "get_container_internal_ip ci_world
        ((DockerContainer_init ci_world ''alpine:latest'' None [])\<lparr>u_container := Some alpine\<rparr>) []
       = on_ok (getitem ?nets (network (DockerContainer_init ci_world ''alpine:latest'' None [])))
           (\<lambda>attrs. getitem attrs ''IPAddress'')
     \<and> get_container_gateway_ip ci_world
        ((DockerContainer_init ci_world ''alpine:latest'' None [])\<lparr>u_container := Some alpine\<rparr>) []
       = on_ok (getitem ?nets (network (DockerContainer_init ci_world ''alpine:latest'' None [])))
           (\<lambda>attrs. getitem attrs ''Gateway'')"
    using b ci_lookup(1) [of "[]" alpine] ci_lookup(2,3) by blast
  have a': "get_container_internal_ip ci_world
        ((DockerContainer_init ci_world ''alpine:latest'' (Some ''my-net'') [])\<lparr>u_container := Some alpine\<rparr>) []
       = on_ok (getitem ?nets (network (DockerContainer_init ci_world ''alpine:latest'' (Some ''my-net'') [])))
           (\<lambda>attrs. getitem attrs ''IPAddress'')"
    using a ci_lookup(1) [of "[]" alpine] ci_lookup(2,3) by blast
  have i1: "get_container_internal_ip ci_world
        ((DockerContainer_init ci_world ''alpine:latest'' None [])\<lparr>u_container := Some alpine\<rparr>) []
       = Inr (Str ''10.5.0.2'')"
    and i2: "get_container_gateway_ip ci_world
        ((DockerContainer_init ci_world ''alpine:latest'' None [])\<lparr>u_container := Some alpine\<rparr>) []
       = Inr (Str ''10.5.0.1'')"
    using b' by (simp_all add: n2 on_ok_def)
  have i3: "get_container_internal_ip ci_world
        ((DockerContainer_init ci_world ''alpine:latest'' (Some ''my-net'') [])\<lparr>u_container := Some alpine\<rparr>) []
       = Inl (Exn ''KeyError'' ''my-net'')"
    using a' by (simp add: n1 on_ok_def)
  show ?thesis
    using n1 n2 n3 k i1 i2 i3 by simp
qed

section \<open>Building an image\<close>

lemma buildkit_events:
  "\<exists>rest. snd (u_build_with_docker_buildkit W self h) = h @ SubprocessRun (buildkit_cmd self) # rest
          \<and> (rest = [] \<or> (\<exists>i. rest = [ImagesGet i]))"
  by (simp add: u_build_with_docker_buildkit_def Let_def split: sum.splits)

lemma release_build_fields:
  "dockerfile release_build = Some ''/tmp/Dockerfile''"
  "context_path release_build = ''.''"
  "target release_build = Some ''release''"
  "built_image release_build = None"
  by (simp_all add: release_build_def EphemeralDockerImage_init_def)

lemma plain_build_fields:
  "dockerfile plain_build = None"
  "context_path plain_build = ''/srv/app''"
  "target plain_build = None"
  by (simp_all add: plain_build_def EphemeralDockerImage_init_def)

lemma toggle:
  "\<not> truthy (getenv host_world ''DOCKER_BUILDKIT'')"
  "truthy (getenv buildkit_world ''DOCKER_BUILDKIT'')"
  "truthy (getenv failing_build_world ''DOCKER_BUILDKIT'')"
  by (simp_all add: truthy_def getenv_def host_world_def buildkit_world_def failing_build_world_def)

lemma release_cmd:
  "buildkit_cmd release_build =
     [''docker'', ''build'', ''-q'', ''--rm=true'', ''-f'', ''/tmp/Dockerfile'',
      ''--target'', ''release'', ''.'']"
  by (simp add: buildkit_cmd_def extend_if_def release_build_fields)

lemma image_id_decoded:
  "decode ''sha256:9b1e\<newline>'' = Inr ''sha256:9b1e\<newline>''"
  "strip ''sha256:9b1e\<newline>'' = ''sha256:9b1e''"
  by (simp_all add: decode_def strip_def is_space_def cont_def Let_def)

lemma buildkit_release:
  "u_build_with_docker_buildkit buildkit_world release_build [] =
     (Inr built, [SubprocessRun (buildkit_cmd release_build), ImagesGet ''sha256:9b1e''])"
  by (simp add: u_build_with_docker_buildkit_def run_checked_def on_ok_def Let_def
      image_id_decoded buildkit_world_def host_world_def)

lemma host_builds: "images_build host_world h df p t forcerm = Inr built"
  by (simp add: host_world_def)

lemma enter_release:
  "enter host_world release_build [] =
     (Inr built, release_build\<lparr>built_image := Some built\<rparr>,
      [ImagesBuild (Some ''/tmp/Dockerfile'') ''.'' (Some ''release'') True])"
  by (simp add: enter_def build_image_def u_build_with_docker_client_def toggle
      release_build_fields host_builds)

text \<open>
  C6. \<^verbatim>\<open>build_image\<close> takes one of two ways, chosen by the environment variable
  \<^verbatim>\<open>DOCKER_BUILDKIT\<close> alone. When it is set (to any non-empty text) the builder's command line
  is run as a subprocess, followed at most by one look-up of the image, and the engine's build
  call is not made. When it is absent (or empty) the only call is the engine's build call,
  with the Dockerfile path, the build context path, the target if any and \<^verbatim>\<open>forcerm=True\<close>;
  the image it returns becomes the instance's image, and an exception it raises is the outcome.
\<close>

theorem build_image_selects_strategy:
  "(truthy (getenv W ''DOCKER_BUILDKIT'') \<longrightarrow>
      (\<exists>rest. snd (snd (build_image W self h)) = h @ SubprocessRun (buildkit_cmd self) # rest
          \<and> (rest = [] \<or> (\<exists>i. rest = [ImagesGet i])))
      \<and> (\<forall>df p t f. ImagesBuild df p t f \<notin> set (drop (length h) (snd (snd (build_image W self h))))))
   \<and> (\<not> truthy (getenv W ''DOCKER_BUILDKIT'') \<longrightarrow>
      snd (snd (build_image W self h))
        = h @ [ImagesBuild (dockerfile self) (context_path self) (target self) True]
      \<and> (\<forall>img. images_build W h (dockerfile self) (context_path self) (target self) True = Inr img \<longrightarrow>
            build_image W self h =
              (Inr (), self\<lparr>built_image := Some img\<rparr>,
               h @ [ImagesBuild (dockerfile self) (context_path self) (target self) True]))
      \<and> (\<forall>e. images_build W h (dockerfile self) (context_path self) (target self) True = Inl e \<longrightarrow>
            build_image W self h =
              (Inl e, self,
               h @ [ImagesBuild (dockerfile self) (context_path self) (target self) True])))"
proof -
  have kit: "truthy (getenv W ''DOCKER_BUILDKIT'') \<Longrightarrow>
      snd (snd (build_image W self h)) = snd (u_build_with_docker_buildkit W self h)"
    by (simp add: build_image_def split: prod.splits sum.splits)
  have api: "\<not> truthy (getenv W ''DOCKER_BUILDKIT'') \<Longrightarrow>
      build_image W self h =
        (case images_build W h (dockerfile self) (context_path self) (target self) True of
           Inl e \<Rightarrow> (Inl e, self, h @ [ImagesBuild (dockerfile self) (context_path self) (target self) True])
         | Inr img \<Rightarrow> (Inr (), self\<lparr>built_image := Some img\<rparr>,
                      h @ [ImagesBuild (dockerfile self) (context_path self) (target self) True]))"
    by (simp add: build_image_def u_build_with_docker_client_def split: sum.splits)
  show ?thesis
  proof (cases "truthy (getenv W ''DOCKER_BUILDKIT'')")
    case True
    obtain rest where r: "snd (u_build_with_docker_buildkit W self h) = h @ SubprocessRun (buildkit_cmd self) # rest"
      "rest = [] \<or> (\<exists>i. rest = [ImagesGet i])"
      using buildkit_events by blast
    have "\<forall>df p t f. ImagesBuild df p t f \<notin> set (drop (length h) (snd (snd (build_image W self h))))"
      using r by (auto simp: kit [OF True])
    then show ?thesis
      using True r by (auto simp: kit [OF True])
  next
    case False
    then show ?thesis
      using api [OF False] by (auto split: sum.splits)
  qed
qed

text \<open>The same build both ways: with the variable absent the engine's build call alone, with
  the variable set the subprocess and the look-up of the image it printed.\<close>

theorem build_image_selects_strategy_witness:
  "\<not> truthy (getenv host_world ''DOCKER_BUILDKIT'')
   \<and> build_image host_world release_build [] =
       (Inr (), release_build\<lparr>built_image := Some built\<rparr>,
        [ImagesBuild (Some ''/tmp/Dockerfile'') ''.'' (Some ''release'') True])
   \<and> truthy (getenv buildkit_world ''DOCKER_BUILDKIT'')
   \<and> snd (snd (build_image buildkit_world release_build [])) =
       [SubprocessRun [''docker'', ''build'', ''-q'', ''--rm=true'', ''-f'', ''/tmp/Dockerfile'',
                       ''--target'', ''release'', ''.''],
        ImagesGet ''sha256:9b1e'']"
proof -
  have api: "images_build host_world [] (Some ''/tmp/Dockerfile'') ''.'' (Some ''release'') True = Inr built"
    by (simp add: host_world_def)
  have kit: "snd (snd (build_image buildkit_world release_build []))
      = snd (u_build_with_docker_buildkit buildkit_world release_build [])"
    using toggle(2) by (simp add: build_image_def split: prod.splits sum.splits)
  show ?thesis
    using build_image_selects_strategy [of host_world release_build "[]"]
      build_image_selects_strategy [of buildkit_world release_build "[]"]
      toggle api kit buildkit_release release_cmd
    by (simp add: release_build_fields)
qed

text \<open>
  C7. The builder's command line is \<^verbatim>\<open>docker build -q --rm=true\<close>, then \<^verbatim>\<open>-f\<close> and the
  Dockerfile only when a Dockerfile is given, then \<^verbatim>\<open>--target\<close> and the stage only when a
  target is given, then the build context path, last. That command is run as a subprocess.
  When the subprocess exits with a status other than zero, \<^verbatim>\<open>CalledProcessError\<close> is
  raised and the engine is not asked for an image. When it exits with zero, its standard
  output, decoded and stripped, is the identifier with which the engine client is asked for
  the image, and the answer to that call is the outcome.
\<close>

theorem buildkit_command_and_result:
  "(\<forall>d t. dockerfile self = Some d \<and> d \<noteq> [] \<and> target self = Some t \<and> t \<noteq> [] \<longrightarrow>
       buildkit_cmd self =
         [''docker'', ''build'', ''-q'', ''--rm=true'', ''-f'', d, ''--target'', t, context_path self])
   \<and> (\<forall>d. dockerfile self = Some d \<and> d \<noteq> [] \<and> \<not> truthy (target self) \<longrightarrow>
       buildkit_cmd self = [''docker'', ''build'', ''-q'', ''--rm=true'', ''-f'', d, context_path self])
   \<and> (\<forall>t. \<not> truthy (dockerfile self) \<and> target self = Some t \<and> t \<noteq> [] \<longrightarrow>
       buildkit_cmd self =
         [''docker'', ''build'', ''-q'', ''--rm=true'', ''--target'', t, context_path self])
   \<and> (\<not> truthy (dockerfile self) \<and> \<not> truthy (target self) \<longrightarrow>
       buildkit_cmd self = [''docker'', ''build'', ''-q'', ''--rm=true'', context_path self])
   \<and> (\<exists>rest. snd (u_build_with_docker_buildkit W self h)
                = h @ SubprocessRun (buildkit_cmd self) # rest)
   \<and> (\<forall>result. subprocess_run W h (buildkit_cmd self) = Inr result \<and> returncode result \<noteq> 0 \<longrightarrow>
         u_build_with_docker_buildkit W self h =
           (Inl (Exn ''CalledProcessError'' ''command returned non-zero exit status''),
            h @ [SubprocessRun (buildkit_cmd self)]))
   \<and> (\<forall>result decoded.
         subprocess_run W h (buildkit_cmd self) = Inr result \<and> returncode result = 0
         \<and> decode (stdout result) = Inr decoded \<longrightarrow>
         u_build_with_docker_buildkit W self h =
           (images_get W (h @ [SubprocessRun (buildkit_cmd self)]) (strip decoded),
            h @ [SubprocessRun (buildkit_cmd self), ImagesGet (strip decoded)]))"
proof -
  have cmd: "buildkit_cmd self =
      [''docker'', ''build'', ''-q'', ''--rm=true'']
        @ extend_if ''-f'' (dockerfile self) @ extend_if ''--target'' (target self)
        @ [context_path self]"
    by (simp add: buildkit_cmd_def)
  have c1: "\<forall>d t. dockerfile self = Some d \<and> d \<noteq> [] \<and> target self = Some t \<and> t \<noteq> [] \<longrightarrow>
       buildkit_cmd self =
         [''docker'', ''build'', ''-q'', ''--rm=true'', ''-f'', d, ''--target'', t, context_path self]"
    by (simp add: cmd extend_if_def)
  have c2: "\<forall>d. dockerfile self = Some d \<and> d \<noteq> [] \<and> \<not> truthy (target self) \<longrightarrow>
       buildkit_cmd self = [''docker'', ''build'', ''-q'', ''--rm=true'', ''-f'', d, context_path self]"
    by (auto simp: cmd extend_if_def truthy_def split: option.splits)
  have c3: "\<forall>t. \<not> truthy (dockerfile self) \<and> target self = Some t \<and> t \<noteq> [] \<longrightarrow>
       buildkit_cmd self =
         [''docker'', ''build'', ''-q'', ''--rm=true'', ''--target'', t, context_path self]"
    by (auto simp: cmd extend_if_def truthy_def split: option.splits)
  have c4: "\<not> truthy (dockerfile self) \<and> \<not> truthy (target self) \<longrightarrow>
       buildkit_cmd self = [''docker'', ''build'', ''-q'', ''--rm=true'', context_path self]"
    by (auto simp: cmd extend_if_def truthy_def split: option.splits)
  have ev: "\<exists>rest. snd (u_build_with_docker_buildkit W self h)
                = h @ SubprocessRun (buildkit_cmd self) # rest"
    using buildkit_events by blast
  have bad: "\<forall>result. subprocess_run W h (buildkit_cmd self) = Inr result \<and> returncode result \<noteq> 0 \<longrightarrow>
         u_build_with_docker_buildkit W self h =
           (Inl (Exn ''CalledProcessError'' ''command returned non-zero exit status''),
            h @ [SubprocessRun (buildkit_cmd self)])"
    by (simp add: u_build_with_docker_buildkit_def run_checked_def on_ok_def Let_def)
  have good: "\<forall>result decoded.
         subprocess_run W h (buildkit_cmd self) = Inr result \<and> returncode result = 0
         \<and> decode (stdout result) = Inr decoded \<longrightarrow>
         u_build_with_docker_buildkit W self h =
           (images_get W (h @ [SubprocessRun (buildkit_cmd self)]) (strip decoded),
            h @ [SubprocessRun (buildkit_cmd self), ImagesGet (strip decoded)])"
    by (simp add: u_build_with_docker_buildkit_def run_checked_def on_ok_def Let_def)
  show ?thesis
    using c1 c2 c3 c4 ev bad good by blast
qed

text \<open>The command lines of a build with a Dockerfile and a target and of a build with neither,
  a build that succeeds and a build whose subprocess exits with status 1.\<close>

theorem buildkit_command_and_result_witness:
  "buildkit_cmd release_build =
     [''docker'', ''build'', ''-q'', ''--rm=true'', ''-f'', ''/tmp/Dockerfile'',
      ''--target'', ''release'', ''.'']
   \<and> buildkit_cmd plain_build = [''docker'', ''build'', ''-q'', ''--rm=true'', ''/srv/app'']
   \<and> u_build_with_docker_buildkit buildkit_world release_build [] =
       (Inr built,
        [SubprocessRun [''docker'', ''build'', ''-q'', ''--rm=true'', ''-f'', ''/tmp/Dockerfile'',
                        ''--target'', ''release'', ''.''],
         ImagesGet ''sha256:9b1e''])
   \<and> u_build_with_docker_buildkit failing_build_world release_build [] =
       (Inl (Exn ''CalledProcessError'' ''command returned non-zero exit status''),
        [SubprocessRun [''docker'', ''build'', ''-q'', ''--rm=true'', ''-f'', ''/tmp/Dockerfile'',
                        ''--target'', ''release'', ''.'']])"
proof -
  note r = buildkit_command_and_result [of release_build buildkit_world "[]"]
  note p = buildkit_command_and_result [of plain_build buildkit_world "[]"]
  note f = buildkit_command_and_result [of release_build failing_build_world "[]"]
  have c1: "buildkit_cmd release_build =
     [''docker'', ''build'', ''-q'', ''--rm=true'', ''-f'', ''/tmp/Dockerfile'',
      ''--target'', ''release'', ''.'']"
    using r by (simp add: release_build_fields)
  have c2: "buildkit_cmd plain_build = [''docker'', ''build'', ''-q'', ''--rm=true'', ''/srv/app'']"
    using p by (simp add: plain_build_fields truthy_def)
  have ok: "subprocess_run buildkit_world [] (buildkit_cmd release_build)
              = Inr \<lparr>returncode = 0, stdout = ''sha256:9b1e\<newline>'', stderr = []\<rparr>"
    and get: "images_get buildkit_world [SubprocessRun (buildkit_cmd release_build)] ''sha256:9b1e'' = Inr built"
    by (simp_all add: buildkit_world_def host_world_def)
  have bad: "subprocess_run failing_build_world [] (buildkit_cmd release_build)
              = Inr \<lparr>returncode = 1, stdout = [], stderr = ''failed to solve''\<rparr>"
    by (simp add: failing_build_world_def)
  have g: "u_build_with_docker_buildkit buildkit_world release_build [] =
       (Inr built, [SubprocessRun (buildkit_cmd release_build), ImagesGet ''sha256:9b1e''])"
    using r ok get image_id_decoded by simp
  have b: "u_build_with_docker_buildkit failing_build_world release_build [] =
       (Inl (Exn ''CalledProcessError'' ''command returned non-zero exit status''),
        [SubprocessRun (buildkit_cmd release_build)])"
    using f bad by simp
  show ?thesis
    using c1 c2 g b by simp
qed

section \<open>The scope of an ephemeral image\<close>

text \<open>
  C8. When the scope was entered, that is when \<^verbatim>\<open>__enter__\<close> returned the built image,
  then whatever the body did, returned or raised, \<^verbatim>\<open>__exit__\<close> asks the engine to remove
  that image, by its identifier, as the last call of the block; \<^verbatim>\<open>__exit__\<close> does so for
  every value of the exception it is given. The outcome of the block is the body's, unless the
  removal itself raises.
\<close>

theorem exit_removes_image:
  assumes "enter W self h = (Inr img, self1, h1)" and "body img h1 = (r, h2)"
  shows "built_image self1 = Some img
         \<and> (\<forall>exc_val. exit W self1 exc_val h2
               = (images_remove W h2 (image_id img), h2 @ [ImagesRemove (image_id img)]))
         \<and> snd (snd (with_image W self body h)) = h2 @ [ImagesRemove (image_id img)]
         \<and> fst (with_image W self body h)
             = (case images_remove W h2 (image_id img) of Inl e' \<Rightarrow> Inl e' | Inr u \<Rightarrow> r)"
proof -
  have built: "built_image self1 = Some img"
    using assms(1) by (auto simp: enter_def split: prod.splits sum.splits option.splits)
  have ex: "exit W self1 exc_val h2
               = (images_remove W h2 (image_id img), h2 @ [ImagesRemove (image_id img)])" for exc_val
    by (simp add: exit_def remove_image_def built)
  show ?thesis
    using assms built ex by (simp add: with_image_def split: sum.splits)
qed

text \<open>A block whose body completes and a block whose body raises: the removal is the last
  event of both.\<close>

theorem exit_removes_image_witness:
  "enter host_world release_build [] =
     (Inr built, release_build\<lparr>built_image := Some built\<rparr>,
      [ImagesBuild (Some ''/tmp/Dockerfile'') ''.'' (Some ''release'') True])
   \<and> with_image host_world release_build inspecting_body [] =
       (Inr ''sha256:9b1e'', release_build\<lparr>built_image := Some built\<rparr>,
        [ImagesBuild (Some ''/tmp/Dockerfile'') ''.'' (Some ''release'') True,
         ImagesGet ''sha256:9b1e'', ImagesRemove ''sha256:9b1e''])
   \<and> with_image host_world release_build raising_body [] =
       (Inl (Exn ''AssertionError'' ''assert False''), release_build\<lparr>built_image := Some built\<rparr>,
        [ImagesBuild (Some ''/tmp/Dockerfile'') ''.'' (Some ''release'') True,
         ImagesRemove ''sha256:9b1e''])"
proof -
  have b1: "inspecting_body built [ImagesBuild (Some ''/tmp/Dockerfile'') ''.'' (Some ''release'') True]
      = (Inr ''sha256:9b1e'',
         [ImagesBuild (Some ''/tmp/Dockerfile'') ''.'' (Some ''release'') True, ImagesGet ''sha256:9b1e''])"
    by (simp add: inspecting_body_def built_def)
  have b2: "raising_body built [ImagesBuild (Some ''/tmp/Dockerfile'') ''.'' (Some ''release'') True]
      = (Inl (Exn ''AssertionError'' ''assert False''),
         [ImagesBuild (Some ''/tmp/Dockerfile'') ''.'' (Some ''release'') True])"
    by (simp add: raising_body_def)
  have rm: "images_remove host_world h i = Inr ()" for h i
    by (simp add: host_world_def)
  have same: "with_image host_world release_build body [] =
      (fst (with_image host_world release_build body []),
       release_build\<lparr>built_image := Some built\<rparr>,
       snd (snd (with_image host_world release_build body [])))" for body :: "docker_image \<Rightarrow> event list \<Rightarrow> (exn + string) \<times> event list"
    by (simp add: with_image_def enter_release split: prod.splits sum.splits)
  show ?thesis
    using exit_removes_image [where body = inspecting_body, OF enter_release b1]
      exit_removes_image [where body = raising_body, OF enter_release b2]
      enter_release rm same [of inspecting_body] same [of raising_body]
    by (simp add: built_def)
qed


section \<open>The probe engine: retrying until success\<close>

lemma begins_lower: "k * probe_interval \<le> begins check probe_interval k"
  by (induction k) simp_all

lemma ends_lower: "0 < probe_interval \<Longrightarrow> k \<le> ends check probe_interval k"
proof -
  assume "0 < probe_interval"
  then have "k \<le> k * probe_interval" by simp
  also have "\<dots> \<le> begins check probe_interval k" by (rule begins_lower)
  finally show ?thesis by (simp add: ends_def)
qed

lemma probe_until_step:
  assumes "fails check i" and "ends check probe_interval i \<le> stop_after"
  shows "probe_until_from check probe_interval stop_after i (begins check probe_interval i)
       = probe_until_from check probe_interval stop_after (Suc i) (begins check probe_interval (Suc i))"
  using assms
  by (subst probe_until_from.simps) (simp add: fails_def ends_def Let_def split: sum.splits)

lemma probe_until_run:
  assumes "\<forall>j<m. fails check j \<and> ends check probe_interval j \<le> stop_after"
  shows "probe_until check probe_interval stop_after
       = probe_until_from check probe_interval stop_after m (begins check probe_interval m)"
  using assms
proof (induction m)
  case 0
  show ?case by (simp add: probe_until_def)
next
  case (Suc m)
  then have "probe_until check probe_interval stop_after
       = probe_until_from check probe_interval stop_after m (begins check probe_interval m)"
    by simp
  also have "\<dots> = probe_until_from check probe_interval stop_after (Suc m)
                     (begins check probe_interval (Suc m))"
    using Suc.prems by (intro probe_until_step) simp_all
  finally show ?case .
qed

lemma probe_until_timeout:
  assumes "\<forall>j<n. fails check j \<and> ends check probe_interval j \<le> stop_after"
    and "fails check n" and "stop_after < ends check probe_interval n"
  shows "probe_until check probe_interval stop_after
       = Some (fst (check n), Suc n, ends check probe_interval n)"
  using assms(2,3)
  by (subst probe_until_run [OF assms(1)], subst probe_until_from.simps)
    (simp add: fails_def ends_def Let_def split: sum.splits)

lemma probe_until_success:
  assumes "\<forall>j<k. fails check j \<and> ends check probe_interval j \<le> stop_after"
    and "fst (check k) = Inr v"
  shows "probe_until check probe_interval stop_after
       = Some (Inr v, Suc k, ends check probe_interval k)"
  using assms(2)
  by (subst probe_until_run [OF assms(1)], subst probe_until_from.simps)
    (simp add: ends_def Let_def)

lemma first_stop:
  assumes "0 < probe_interval"
  shows "\<exists>n. (\<forall>j<n. P j \<and> ends check probe_interval j \<le> stop_after)
            \<and> \<not> (P n \<and> ends check probe_interval n \<le> stop_after)"
proof -
  let ?Q = "\<lambda>n. \<not> (P n \<and> ends check probe_interval n \<le> stop_after)"
  have "?Q (Suc stop_after)"
    using ends_lower [OF assms, of "Suc stop_after" check] by simp
  then have "?Q (LEAST n. ?Q n)" and "\<forall>j<(LEAST n. ?Q n). \<not> ?Q j"
    by (rule LeastI, auto dest: not_less_Least)
  then show ?thesis by blast
qed

lemma probe_until_returns:
  assumes "0 < probe_interval"
  shows "\<exists>n. probe_until check probe_interval stop_after
            = Some (fst (check n), Suc n, ends check probe_interval n)
          \<and> (\<forall>j<n. fails check j \<and> ends check probe_interval j \<le> stop_after)
          \<and> (fails check n \<longrightarrow> stop_after < ends check probe_interval n)"
proof -
  obtain n where n: "\<forall>j<n. fails check j \<and> ends check probe_interval j \<le> stop_after"
      "\<not> (fails check n \<and> ends check probe_interval n \<le> stop_after)"
    using first_stop [OF assms, of "fails check"] by blast
  show ?thesis
  proof (cases "fails check n")
    case True
    with n have "stop_after < ends check probe_interval n" by simp
    with n True show ?thesis
      using probe_until_timeout [OF n(1) True] by (intro exI [of _ n]) simp
  next
    case False
    then obtain v where v: "fst (check n) = Inr v"
      by (cases "fst (check n)") (simp_all add: fails_def)
    with n False show ?thesis
      using probe_until_success [OF n(1) v] by (intro exI [of _ n]) simp
  qed
qed

lemma ends_values:
  "ends check 100 0 = snd (check 0)"
  "ends check 100 (Suc 0) = snd (check 0) + 100 + snd (check (Suc 0))"
  "ends check 100 2 = snd (check 0) + 100 + snd (check 1) + 100 + snd (check 2)"
  "ends check 100 3 = snd (check 0) + 100 + snd (check 1) + 100 + snd (check 2) + 100 + snd (check 3)"
  by (simp_all add: ends_def numeral_2_eq_2 numeral_3_eq_3)

lemma below_4:
  "(\<forall>j\<le>3. P j) = (P 0 \<and> P (Suc 0) \<and> P 2 \<and> P (3::nat))"
  "(\<forall>j<3. P j) = (P 0 \<and> P (Suc 0) \<and> P (2::nat))"
  "(\<forall>j<2. P j) = (P 0 \<and> P (Suc 0))"
  by (auto simp: numeral_eq_Suc less_Suc_eq le_Suc_eq)

text \<open>
  C4. \<^verbatim>\<open>probe_until\<close>, for a check given by its outcomes. With a positive
  \<^verbatim>\<open>probe_interval\<close> the call returns, whatever the check does. An invocation begins
  \<^verbatim>\<open>probe_interval\<close> after the one before it ended. When the invocations up to number \<open>n\<close>
  all fail and \<open>n\<close> is the first to end after more than \<^verbatim>\<open>stop_after\<close>, the call raises
  what invocation \<open>n\<close> raised, the last exception of the check with its class and message, and
  no other error, after \<open>n + 1\<close> invocations. When invocation \<open>k\<close> succeeds after failures
  that all ended within \<^verbatim>\<open>stop_after\<close>, the call returns its result at the moment that
  invocation ends, with no further wait. So a check that fails every time is retried until the
  elapsed time exceeds \<^verbatim>\<open>stop_after\<close> and its last exception is raised.
\<close>

theorem probe_until_reraises_last_exception:
  "(0 < probe_interval \<longrightarrow> (\<exists>r. probe_until check probe_interval stop_after = Some r))
   \<and> (\<forall>n. (\<forall>j\<le>n. fails check j) \<and> (\<forall>j<n. ends check probe_interval j \<le> stop_after)
          \<and> stop_after < ends check probe_interval n \<longrightarrow>
        probe_until check probe_interval stop_after
          = Some (fst (check n), Suc n, ends check probe_interval n))
   \<and> (\<forall>k v. (\<forall>j<k. fails check j \<and> ends check probe_interval j \<le> stop_after)
          \<and> fst (check k) = Inr v \<longrightarrow>
        probe_until check probe_interval stop_after
          = Some (Inr v, Suc k, ends check probe_interval k))
   \<and> (0 < probe_interval \<and> (\<forall>j. fails check j) \<longrightarrow>
        (\<exists>n e. probe_until check probe_interval stop_after
                 = Some (Inl e, Suc n, ends check probe_interval n)
              \<and> fst (check n) = Inl e
              \<and> stop_after < ends check probe_interval n
              \<and> (\<forall>j<n. ends check probe_interval j \<le> stop_after)))"
proof -
  have a: "0 < probe_interval \<longrightarrow> (\<exists>r. probe_until check probe_interval stop_after = Some r)"
    using probe_until_returns by blast
  have b: "\<forall>n. (\<forall>j\<le>n. fails check j) \<and> (\<forall>j<n. ends check probe_interval j \<le> stop_after)
          \<and> stop_after < ends check probe_interval n \<longrightarrow>
        probe_until check probe_interval stop_after
          = Some (fst (check n), Suc n, ends check probe_interval n)"
    by (simp add: probe_until_timeout)
  have c: "\<forall>k v. (\<forall>j<k. fails check j \<and> ends check probe_interval j \<le> stop_after)
          \<and> fst (check k) = Inr v \<longrightarrow>
        probe_until check probe_interval stop_after
          = Some (Inr v, Suc k, ends check probe_interval k)"
    by (simp add: probe_until_success)
  have d: "0 < probe_interval \<and> (\<forall>j. fails check j) \<longrightarrow>
        (\<exists>n e. probe_until check probe_interval stop_after
                 = Some (Inl e, Suc n, ends check probe_interval n)
              \<and> fst (check n) = Inl e
              \<and> stop_after < ends check probe_interval n
              \<and> (\<forall>j<n. ends check probe_interval j \<le> stop_after))"
  proof (intro impI, elim conjE)
    assume pos: "0 < probe_interval" and all: "\<forall>j. fails check j"
    obtain n where n: "probe_until check probe_interval stop_after
            = Some (fst (check n), Suc n, ends check probe_interval n)"
          "\<forall>j<n. fails check j \<and> ends check probe_interval j \<le> stop_after"
          "fails check n \<longrightarrow> stop_after < ends check probe_interval n"
      using probe_until_returns [OF pos] by blast
    from all have "fails check n" by simp
    then obtain e where "fst (check n) = Inl e"
      by (cases "fst (check n)") (simp_all add: fails_def)
    with n all show "\<exists>n e. probe_until check probe_interval stop_after
                 = Some (Inl e, Suc n, ends check probe_interval n)
              \<and> fst (check n) = Inl e
              \<and> stop_after < ends check probe_interval n
              \<and> (\<forall>j<n. ends check probe_interval j \<le> stop_after)"
      by auto
  qed
  show ?thesis by (intro conjI a b c d)
qed

text \<open>
  The two tests of the module with interval 100 and budget 300: a check that fails four times
  raises its own \<^verbatim>\<open>AssertionError\<close> after the fourth invocation, at 304; a check that fails
  twice returns \<^verbatim>\<open>True\<close> at the third, at 203.
\<close>

theorem probe_until_reraises_last_exception_witness:
  "probe_until (popping [False, False, False, False, True]) 100 300
     = Some (Inl (Exn ''AssertionError'' ''assert False''), 4, 304)
   \<and> probe_until (popping [False, False, True]) 100 300 = Some (Inr True, 3, 203)"
proof -
  let ?late = "popping [False, False, False, False, True]"
  let ?soon = "popping [False, False, True]"
  have late: "(\<forall>j\<le>3. fails ?late j) \<and> (\<forall>j<3. ends ?late 100 j \<le> 300) \<and> 300 < ends ?late 100 3"
    by (simp add: below_4 ends_values) (simp add: popping_def fails_def)
  have soon: "(\<forall>j<2. fails ?soon j \<and> ends ?soon 100 j \<le> 300) \<and> fst (?soon 2) = Inr True"
    by (simp add: below_4 ends_values) (simp add: popping_def fails_def)
  have "probe_until ?late 100 300 = Some (fst (?late 3), Suc 3, ends ?late 100 3)"
    using probe_until_reraises_last_exception [of 100 ?late 300] late by blast
  moreover have "probe_until ?soon 100 300 = Some (Inr True, Suc 2, ends ?soon 100 2)"
    using probe_until_reraises_last_exception [of 100 ?soon 300] soon by blast
  ultimately show ?thesis
    by (simp add: ends_values) (simp add: popping_def assertion_error_def)
qed

section \<open>The probe engine: requiring success throughout\<close>

lemma probe_during_step:
  assumes "\<not> fails check i" and "ends check probe_interval i \<le> stop_after"
  shows "probe_during_interval_from check probe_interval stop_after i (begins check probe_interval i)
       = probe_during_interval_from check probe_interval stop_after (Suc i)
           (begins check probe_interval (Suc i))"
  using assms
  by (subst probe_during_interval_from.simps)
    (simp add: fails_def ends_def Let_def split: sum.splits)

lemma probe_during_run:
  assumes "\<forall>j<m. \<not> fails check j \<and> ends check probe_interval j \<le> stop_after"
  shows "probe_during_interval check probe_interval stop_after
       = probe_during_interval_from check probe_interval stop_after m (begins check probe_interval m)"
  using assms
proof (induction m)
  case 0
  show ?case by (simp add: probe_during_interval_def)
next
  case (Suc m)
  then have "probe_during_interval check probe_interval stop_after
       = probe_during_interval_from check probe_interval stop_after m (begins check probe_interval m)"
    by simp
  also have "\<dots> = probe_during_interval_from check probe_interval stop_after (Suc m)
                     (begins check probe_interval (Suc m))"
    using Suc.prems by (intro probe_during_step) simp_all
  finally show ?case .
qed

lemma probe_during_failure:
  assumes "\<forall>j<k. \<not> fails check j \<and> ends check probe_interval j \<le> stop_after"
    and "fst (check k) = Inl e"
  shows "probe_during_interval check probe_interval stop_after
       = Some (Inl e, Suc k, ends check probe_interval k)"
  using assms(2)
  by (subst probe_during_run [OF assms(1)], subst probe_during_interval_from.simps)
    (simp add: ends_def Let_def)

lemma probe_during_complete:
  assumes "\<forall>j<n. \<not> fails check j \<and> ends check probe_interval j \<le> stop_after"
    and "fst (check n) = Inr v" and "stop_after < ends check probe_interval n"
  shows "probe_during_interval check probe_interval stop_after
       = Some (Inr v, Suc n, ends check probe_interval n)"
  using assms(2,3)
  by (subst probe_during_run [OF assms(1)], subst probe_during_interval_from.simps)
    (simp add: ends_def Let_def)

lemma probe_during_returns:
  assumes "0 < probe_interval"
  shows "\<exists>n. probe_during_interval check probe_interval stop_after
            = Some (fst (check n), Suc n, ends check probe_interval n)
          \<and> (\<forall>j<n. \<not> fails check j \<and> ends check probe_interval j \<le> stop_after)
          \<and> (\<not> fails check n \<longrightarrow> stop_after < ends check probe_interval n)"
proof -
  obtain n where n: "\<forall>j<n. \<not> fails check j \<and> ends check probe_interval j \<le> stop_after"
      "\<not> (\<not> fails check n \<and> ends check probe_interval n \<le> stop_after)"
    using first_stop [OF assms, of "\<lambda>j. \<not> fails check j"] by blast
  show ?thesis
  proof (cases "fst (check n)")
    case (Inl e)
    then have "fails check n" by (simp add: fails_def)
    then show ?thesis
      using probe_during_failure [OF n(1) Inl] n(1) Inl by (intro exI [of _ n]) simp
  next
    case (Inr v)
    then have ok: "\<not> fails check n" by (simp add: fails_def)
    with n(2) have late: "stop_after < ends check probe_interval n" by simp
    show ?thesis
      using probe_during_complete [OF n(1) Inr late] n(1) Inr late by (intro exI [of _ n]) simp
  qed
qed

text \<open>
  C5. \<^verbatim>\<open>probe_during_interval\<close>, for a check given by its outcomes. When invocation \<open>k\<close>
  is the first to fail, the earlier ones having ended within \<^verbatim>\<open>stop_after\<close>, the call
  raises what that invocation raised, with its class and message, after \<open>k + 1\<close> invocations
  and at the moment that invocation ends: there is no retry and no wait for the rest of the
  window. When the invocations succeed up to the first that ends after more than
  \<^verbatim>\<open>stop_after\<close>, the call returns. With a positive \<^verbatim>\<open>probe_interval\<close> the call returns
  whatever the check does, and for a check that succeeds every time it returns normally once
  the window is over.
\<close>

theorem probe_during_interval_aborts_on_first_failure:
  "(\<forall>k e. (\<forall>j<k. \<not> fails check j \<and> ends check probe_interval j \<le> stop_after)
          \<and> fst (check k) = Inl e \<longrightarrow>
        probe_during_interval check probe_interval stop_after
          = Some (Inl e, Suc k, ends check probe_interval k))
   \<and> (\<forall>n v. (\<forall>j<n. \<not> fails check j \<and> ends check probe_interval j \<le> stop_after)
          \<and> fst (check n) = Inr v \<and> stop_after < ends check probe_interval n \<longrightarrow>
        probe_during_interval check probe_interval stop_after
          = Some (Inr v, Suc n, ends check probe_interval n))
   \<and> (0 < probe_interval \<longrightarrow>
        (\<exists>r. probe_during_interval check probe_interval stop_after = Some r))
   \<and> (0 < probe_interval \<and> (\<forall>j. \<not> fails check j) \<longrightarrow>
        (\<exists>n v. probe_during_interval check probe_interval stop_after
                 = Some (Inr v, Suc n, ends check probe_interval n)
              \<and> stop_after < ends check probe_interval n
              \<and> (\<forall>j<n. ends check probe_interval j \<le> stop_after)))"
proof -
  have a: "\<forall>k e. (\<forall>j<k. \<not> fails check j \<and> ends check probe_interval j \<le> stop_after)
          \<and> fst (check k) = Inl e \<longrightarrow>
        probe_during_interval check probe_interval stop_after
          = Some (Inl e, Suc k, ends check probe_interval k)"
    by (simp add: probe_during_failure)
  have b: "\<forall>n v. (\<forall>j<n. \<not> fails check j \<and> ends check probe_interval j \<le> stop_after)
          \<and> fst (check n) = Inr v \<and> stop_after < ends check probe_interval n \<longrightarrow>
        probe_during_interval check probe_interval stop_after
          = Some (Inr v, Suc n, ends check probe_interval n)"
    by (simp add: probe_during_complete)
  have c: "0 < probe_interval \<longrightarrow>
        (\<exists>r. probe_during_interval check probe_interval stop_after = Some r)"
    using probe_during_returns by blast
  have d: "0 < probe_interval \<and> (\<forall>j. \<not> fails check j) \<longrightarrow>
        (\<exists>n v. probe_during_interval check probe_interval stop_after
                 = Some (Inr v, Suc n, ends check probe_interval n)
              \<and> stop_after < ends check probe_interval n
              \<and> (\<forall>j<n. ends check probe_interval j \<le> stop_after))"
  proof (intro impI, elim conjE)
    assume pos: "0 < probe_interval" and all: "\<forall>j. \<not> fails check j"
    obtain n where n: "probe_during_interval check probe_interval stop_after
            = Some (fst (check n), Suc n, ends check probe_interval n)"
          "\<forall>j<n. \<not> fails check j \<and> ends check probe_interval j \<le> stop_after"
          "\<not> fails check n \<longrightarrow> stop_after < ends check probe_interval n"
      using probe_during_returns [OF pos] by blast
    from all have "\<not> fails check n" by simp
    then obtain v where "fst (check n) = Inr v"
      by (cases "fst (check n)") (simp_all add: fails_def)
    with n all show "\<exists>n v. probe_during_interval check probe_interval stop_after
                 = Some (Inr v, Suc n, ends check probe_interval n)
              \<and> stop_after < ends check probe_interval n
              \<and> (\<forall>j<n. ends check probe_interval j \<le> stop_after)"
      by auto
  qed
  show ?thesis by (intro conjI a b c d)
qed

text \<open>
  The tests of the module: with interval 100 and window 500 a check that raises
  \<^verbatim>\<open>ValueError\<close> at its third invocation ends the call with that error at 203; with window
  300 a check that succeeds four times lets the call return \<^verbatim>\<open>True\<close> at 304.
\<close>

theorem probe_during_interval_aborts_on_first_failure_witness:
  "probe_during_interval (raising_on_false [True, True, False, True]) 100 500
     = Some (Inl (Exn ''ValueError'' ''Something went wrong''), 3, 203)
   \<and> probe_during_interval (popping [True, True, True, True]) 100 300 = Some (Inr True, 4, 304)"
proof -
  let ?bad = "raising_on_false [True, True, False, True]"
  let ?good = "popping [True, True, True, True]"
  have bad: "(\<forall>j<2. \<not> fails ?bad j \<and> ends ?bad 100 j \<le> 500) \<and> fst (?bad 2) = Inl value_error"
    by (simp add: below_4 ends_values) (simp add: raising_on_false_def fails_def)
  have good: "(\<forall>j<3. \<not> fails ?good j \<and> ends ?good 100 j \<le> 300) \<and> fst (?good 3) = Inr True
      \<and> 300 < ends ?good 100 3"
    by (simp add: below_4 ends_values) (simp add: popping_def fails_def)
  have "probe_during_interval ?bad 100 500 = Some (Inl value_error, Suc 2, ends ?bad 100 2)"
    using probe_during_interval_aborts_on_first_failure [of ?bad 100 500] bad by blast
  moreover have "probe_during_interval ?good 100 300 = Some (Inr True, Suc 3, ends ?good 100 3)"
    using probe_during_interval_aborts_on_first_failure [of ?good 100 300] good by blast
  ultimately show ?thesis
    by (simp add: ends_values) (simp add: popping_def raising_on_false_def value_error_def)
qed

end
